theory Spec2Isabelle
  imports Main
begin

section \<open>Data model\<close>

text \<open>
  The package \<open>configutil\<close> resolves \<open>devspace.yaml\<close> into a typed \<open>latest.Config\<close>,
  validates it and caches the result process-wide. This theory embeds \<open>validate\<close>,
  \<open>GetConfigFromPath\<close>, \<open>loadConfigOnce\<close>, \<open>ResetConfig\<close>, \<open>InitConfig\<close>,
  \<open>configExistsInPath\<close> and \<open>SetDevSpaceRoot\<close> of that package and \<open>New\<close> of the helm
  deployment client.

  Go pointers, slices and maps that the code compares with \<open>nil\<close> are options: \<open>None\<close> is
  \<open>nil\<close>, and \<open>Some []\<close> is a slice that is allocated and empty. The declarations of
  package \<open>latest\<close> are not among the sources; the records below hold the fields the code
  reads, under the code's field names (prefixed by the struct, since several structs have
  a field \<open>Name\<close> or \<open>ImageName\<close>). Elements of pointer slices are taken to be non-nil.
\<close>

subsection \<open>Untyped documents\<close>

text \<open>
  \<open>map[interface{}]interface{}\<close> as YAML produces it: a tree of scalars, sequences and
  maps. Keys are strings.
\<close>

datatype node = Scalar string | Sequence "node list" | Mapping "string \<Rightarrow> node option"

type_synonym "values" = "string \<Rightarrow> node option"

subsection \<open>The typed configuration\<close>

record PortMapping =
  LocalPort :: nat
  RemotePort :: nat

record PortForwardingConfig =
  port_ImageName :: string
  port_LabelSelector :: "(string \<Rightarrow> string option) option"
  port_PortMappings :: "PortMapping list option"

record SyncConfig =
  sync_ImageName :: string
  sync_LabelSelector :: "(string \<Rightarrow> string option) option"

record InteractiveImageConfig =
  interactive_Name :: string

record InteractiveConfig =
  interactive_Images :: "InteractiveImageConfig list"

record DevConfig =
  dev_Ports :: "PortForwardingConfig list option"
  dev_Sync :: "SyncConfig list option"
  dev_Interactive :: "InteractiveConfig option"

record CommandConfig =
  command_Name :: string
  command_Command :: string

record HookConfig =
  hook_Command :: string

record CustomConfig =
  custom_Command :: string

record BuildConfig =
  build_Custom :: "CustomConfig option"

record ImageConfig =
  image_Image :: string
  image_Build :: "BuildConfig option"

record ChartConfig =
  chart_Name :: string
  chart_Version :: string
  chart_RepoURL :: string

record HelmConfig =
  helm_Chart :: "ChartConfig option"
  helm_ComponentChart :: "bool option"
  helm_ValuesFiles :: "string list option"
  helm_Values :: "values option"
  helm_TillerNamespace :: string

record KubectlConfig =
  kubectl_Manifests :: "string list option"

record DeploymentConfig =
  deployment_Name :: string
  deployment_Helm :: "HelmConfig option"
  deployment_Kubectl :: "KubectlConfig option"

text \<open>
  \<open>Images\<close> is a Go map from names to image configurations: a partial function. The
  order in which a \<open>range\<close> over it visits the entries is not part of the map.
\<close>

record Config =
  Dev :: "DevConfig option"
  Commands :: "CommandConfig list option"
  Hooks :: "HookConfig list option"
  Images :: "(string \<Rightarrow> ImageConfig option) option"
  Deployments :: "DeploymentConfig list option"

subsection \<open>File paths\<close>

text \<open>
  A path as the code holds it: relative to the working directory (\<open>"."\<close> is
  \<open>Relative []\<close>) or absolute, with its components. \<open>filepath.Join\<close> adds a component.
\<close>

datatype filepath = Relative "string list" | Absolute "string list"

fun filepath_Join :: "filepath \<Rightarrow> string \<Rightarrow> filepath" where
  "filepath_Join (Relative p) name = Relative (p @ [name])"
| "filepath_Join (Absolute p) name = Absolute (p @ [name])"

subsection \<open>Errors\<close>

text \<open>
  One constructor for each error the package builds, holding the arguments of its format
  string; \<open>External\<close> is an error a collaborator returned. The empty-image error is built
  at two places, by \<open>errors.Errorf\<close> and by \<open>fmt.Errorf\<close>: two constructors.
\<close>

datatype error =
    PortSelectorNil nat
  | PortMappingsEmpty nat
  | SyncSelectorNil nat
  | InteractiveImageUnnamed nat
  | CommandNameRequired nat
  | CommandCommandRequired nat
  | HookCommandRequired nat
  | ImageRequired string
  | ImageCustomCommandRequired string
  | ImageRequiredFmt string
  | DeploymentNameRequired nat
  | DeploymentTypeRequired string
  | DeploymentChartRequired nat
  | KubectlManifestsRequired nat
  | ValuesFilesAbsError nat string string
  | MarshalValuesError nat string
  | ComponentValuesIncorrect nat string
  | LegacyConfigsNotSupported
  | CouldntFind filepath string
  | External string

section \<open>The validator\<close>

text \<open>
  What \<open>validate\<close> calls outside the package: \<open>filepath.Abs\<close> (an error message or the
  absolute path), \<open>yamlutil.ReadYamlFromFile\<close> (an error message or the document read),
  \<open>merge.Values.MergeInto\<close> (the receiver after the merge), \<open>yaml.Marshal\<close> and
  \<open>yaml.UnmarshalStrict\<close> into \<open>latest.ComponentConfig\<close> (\<open>None\<close> when it decodes).
  \<open>range_Images\<close> is the Go runtime: the order in which, in this invocation, the
  \<open>range\<close> over the \<open>Images\<close> map visits the keys. The runtime visits every key of the
  map once (\<open>visits_every_image\<close> below) and is free in the order.
\<close>

record env =
  filepath_Abs :: "string \<Rightarrow> string + string"
  ReadYamlFromFile :: "string \<Rightarrow> string + values"
  merge_MergeInto :: "values \<Rightarrow> values \<Rightarrow> values"
  yaml_Marshal :: "values \<Rightarrow> string + string"
  UnmarshalStrict_ComponentConfig :: "string \<Rightarrow> string option"
  range_Images :: "(string \<Rightarrow> ImageConfig option) \<Rightarrow> string list"

fun validate_ports :: "nat \<Rightarrow> PortForwardingConfig list \<Rightarrow> error option" where
  "validate_ports index [] = None"
| "validate_ports index (port # rest) =
     (if port_ImageName port = [] \<and> port_LabelSelector port = None
      then Some (PortSelectorNil index)
      else if port_PortMappings port = None
      then Some (PortMappingsEmpty index)
      else validate_ports (Suc index) rest)"

fun validate_sync :: "nat \<Rightarrow> SyncConfig list \<Rightarrow> error option" where
  "validate_sync index [] = None"
| "validate_sync index (sync # rest) =
     (if sync_ImageName sync = [] \<and> sync_LabelSelector sync = None
      then Some (SyncSelectorNil index)
      else validate_sync (Suc index) rest)"

fun validate_interactive :: "nat \<Rightarrow> InteractiveImageConfig list \<Rightarrow> error option" where
  "validate_interactive index [] = None"
| "validate_interactive index (imageConf # rest) =
     (if interactive_Name imageConf = []
      then Some (InteractiveImageUnnamed index)
      else validate_interactive (Suc index) rest)"

definition validate_dev :: "DevConfig \<Rightarrow> error option" where
  "validate_dev dev =
     (case (case dev_Ports dev of None \<Rightarrow> None | Some ports \<Rightarrow> validate_ports 0 ports) of
        Some e \<Rightarrow> Some e
      | None \<Rightarrow>
         (case (case dev_Sync dev of None \<Rightarrow> None | Some syncs \<Rightarrow> validate_sync 0 syncs) of
            Some e \<Rightarrow> Some e
          | None \<Rightarrow>
             (case dev_Interactive dev of
                None \<Rightarrow> None
              | Some interactive \<Rightarrow> validate_interactive 0 (interactive_Images interactive))))"

fun validate_commands :: "nat \<Rightarrow> CommandConfig list \<Rightarrow> error option" where
  "validate_commands index [] = None"
| "validate_commands index (command # rest) =
     (if command_Name command = []
      then Some (CommandNameRequired index)
      else if command_Command command = []
      then Some (CommandCommandRequired index)
      else validate_commands (Suc index) rest)"

fun validate_hooks :: "nat \<Rightarrow> HookConfig list \<Rightarrow> error option" where
  "validate_hooks index [] = None"
| "validate_hooks index (hookConfig # rest) =
     (if hook_Command hookConfig = []
      then Some (HookCommandRequired index)
      else validate_hooks (Suc index) rest)"

definition custom_command_empty :: "ImageConfig \<Rightarrow> bool" where
  "custom_command_empty imageConf =
     (case image_Build imageConf of
        None \<Rightarrow> False
      | Some build \<Rightarrow>
         (case build_Custom build of
            None \<Rightarrow> False
          | Some custom \<Rightarrow> custom_Command custom = []))"

text \<open>
  The loop over \<open>Images\<close>, on the keys in the order of the visit. A name the map does not
  hold is not visited by the runtime; the loop passes over it.
\<close>

fun validate_images :: "(string \<Rightarrow> ImageConfig option) \<Rightarrow> string list \<Rightarrow> error option" where
  "validate_images images [] = None"
| "validate_images images (imageConfigName # rest) =
     (case images imageConfigName of
        None \<Rightarrow> validate_images images rest
      | Some imageConf \<Rightarrow>
         (if image_Image imageConf = []
          then Some (ImageRequired imageConfigName)
          else if custom_command_empty imageConf
          then Some (ImageCustomCommandRequired imageConfigName)
          else if image_Image imageConf = []
          then Some (ImageRequiredFmt imageConfigName)
          else validate_images images rest))"

text \<open>
  The loop over \<open>Helm.ValuesFiles\<close>: a path that has no absolute form ends validation; a
  file that cannot be read or parsed is passed over; a document read is merged into
  \<open>overwriteValues\<close>.
\<close>

fun load_values_files :: "env \<Rightarrow> nat \<Rightarrow> string list \<Rightarrow> values \<Rightarrow> error + values" where
  "load_values_files E index [] overwriteValues = Inr overwriteValues"
| "load_values_files E index (overridePath # rest) overwriteValues =
     (case filepath_Abs E overridePath of
        Inl err \<Rightarrow> Inl (ValuesFilesAbsError index overridePath err)
      | Inr overwriteValuesPath \<Rightarrow>
         (case ReadYamlFromFile E overwriteValuesPath of
            Inr overwriteValuesFromPath \<Rightarrow>
              load_values_files E index rest
                (merge_MergeInto E overwriteValues overwriteValuesFromPath)
          | Inl err \<Rightarrow> load_values_files E index rest overwriteValues))"

definition overwrite_values :: "env \<Rightarrow> nat \<Rightarrow> HelmConfig \<Rightarrow> error + values" where
  "overwrite_values E index helm =
     (case load_values_files E index
             (case helm_ValuesFiles helm of None \<Rightarrow> [] | Some files \<Rightarrow> files) Map.empty of
        Inl e \<Rightarrow> Inl e
      | Inr overwriteValues \<Rightarrow>
         (case helm_Values helm of
            None \<Rightarrow> Inr overwriteValues
          | Some inline \<Rightarrow> Inr (merge_MergeInto E overwriteValues inline)))"

definition validate_component_values :: "env \<Rightarrow> nat \<Rightarrow> HelmConfig \<Rightarrow> error option" where
  "validate_component_values E index helm =
     (case overwrite_values E index helm of
        Inl e \<Rightarrow> Some e
      | Inr overwriteValues \<Rightarrow>
         (case yaml_Marshal E overwriteValues of
            Inl err \<Rightarrow> Some (MarshalValuesError index err)
          | Inr bytes \<Rightarrow>
             (case UnmarshalStrict_ComponentConfig E bytes of
                Some err \<Rightarrow> Some (ComponentValuesIncorrect index err)
              | None \<Rightarrow> None)))"

definition chart_missing :: "HelmConfig \<Rightarrow> bool" where
  "chart_missing helm =
     ((case helm_Chart helm of None \<Rightarrow> True | Some chart \<Rightarrow> chart_Name chart = []) \<and>
      (helm_ComponentChart helm = None \<or> helm_ComponentChart helm = Some False))"

definition validate_deployment :: "env \<Rightarrow> nat \<Rightarrow> DeploymentConfig \<Rightarrow> error option" where
  "validate_deployment E index deployConfig =
     (if deployment_Name deployConfig = []
      then Some (DeploymentNameRequired index)
      else if deployment_Helm deployConfig = None \<and> deployment_Kubectl deployConfig = None
      then Some (DeploymentTypeRequired (deployment_Name deployConfig))
      else if (case deployment_Helm deployConfig of
                 None \<Rightarrow> False | Some helm \<Rightarrow> chart_missing helm)
      then Some (DeploymentChartRequired index)
      else if (case deployment_Kubectl deployConfig of
                 None \<Rightarrow> False | Some kubectl \<Rightarrow> kubectl_Manifests kubectl = None)
      then Some (KubectlManifestsRequired index)
      else (case deployment_Helm deployConfig of
              None \<Rightarrow> None
            | Some helm \<Rightarrow>
               (if helm_ComponentChart helm = Some True
                then validate_component_values E index helm
                else None)))"

fun validate_deployments :: "env \<Rightarrow> nat \<Rightarrow> DeploymentConfig list \<Rightarrow> error option" where
  "validate_deployments E index [] = None"
| "validate_deployments E index (deployConfig # rest) =
     (case validate_deployment E index deployConfig of
        Some e \<Rightarrow> Some e
      | None \<Rightarrow> validate_deployments E (Suc index) rest)"

definition validate :: "env \<Rightarrow> Config \<Rightarrow> error option" where
  "validate E config =
     (case (case Dev config of None \<Rightarrow> None | Some dev \<Rightarrow> validate_dev dev) of
        Some e \<Rightarrow> Some e
      | None \<Rightarrow>
     (case (case Commands config of None \<Rightarrow> None | Some cs \<Rightarrow> validate_commands 0 cs) of
        Some e \<Rightarrow> Some e
      | None \<Rightarrow>
     (case (case Hooks config of None \<Rightarrow> None | Some hs \<Rightarrow> validate_hooks 0 hs) of
        Some e \<Rightarrow> Some e
      | None \<Rightarrow>
     (case (case Images config of
              None \<Rightarrow> None
            | Some images \<Rightarrow> validate_images images (range_Images E images)) of
        Some e \<Rightarrow> Some e
      | None \<Rightarrow>
     (case Deployments config of
        None \<Rightarrow> None
      | Some ds \<Rightarrow> validate_deployments E 0 ds)))))"

section \<open>Merging override values\<close>

text \<open>
  Modelled from the spec: package \<open>merge\<close> (\<open>merge.Values.MergeInto\<close>) is not among the
  sources. The spec says of the documents merged that the one merged in later wins on
  conflict: every key of \<open>src\<close> takes the value \<open>src\<close> gives it, every other key keeps
  the receiver's.
\<close>

definition MergeInto :: "values \<Rightarrow> values \<Rightarrow> values" where
  "MergeInto dst src = (\<lambda>key. case src key of Some srcVal \<Rightarrow> Some srcVal | None \<Rightarrow> dst key)"

text \<open>
  The reconciliation in the spec's words: the documents of the value files that could be
  read, in the order of the file list, and for a key the value of the last of them that
  has the key.
\<close>

definition loaded_documents :: "env \<Rightarrow> string list \<Rightarrow> values list" where
  "loaded_documents E files =
     List.map_filter
       (\<lambda>overridePath.
          case filepath_Abs E overridePath of
            Inl err \<Rightarrow> None
          | Inr p \<Rightarrow> (case ReadYamlFromFile E p of Inl err \<Rightarrow> None | Inr doc \<Rightarrow> Some doc))
       files"

fun last_defined :: "values list \<Rightarrow> string \<Rightarrow> node option" where
  "last_defined [] key = None"
| "last_defined (doc # docs) key =
     (case last_defined docs key of Some v \<Rightarrow> Some v | None \<Rightarrow> doc key)"

definition reconciled :: "values list \<Rightarrow> values option \<Rightarrow> values" where
  "reconciled docs inline =
     (\<lambda>key. case (case inline of None \<Rightarrow> None | Some block \<Rightarrow> block key) of
              Some v \<Rightarrow> Some v
            | None \<Rightarrow> last_defined docs key)"

definition values_files :: "HelmConfig \<Rightarrow> string list" where
  "values_files helm = (case helm_ValuesFiles helm of None \<Rightarrow> [] | Some files \<Rightarrow> files)"

section \<open>What the result of validation depends on\<close>

text \<open>
  The value files \<open>validate\<close> can come to: those of the deployments that use the
  component chart. Two environments agree on the files of a configuration when they give
  these paths the same absolute form and the same document, and share the library
  functions.
\<close>

definition deployments_of :: "Config \<Rightarrow> DeploymentConfig list" where
  "deployments_of c = (case Deployments c of None \<Rightarrow> [] | Some ds \<Rightarrow> ds)"

definition component_chart_files :: "Config \<Rightarrow> string set" where
  "component_chart_files c =
     (\<Union>d \<in> set (deployments_of c).
        case deployment_Helm d of
          None \<Rightarrow> {}
        | Some helm \<Rightarrow>
           (if helm_ComponentChart helm = Some True then set (values_files helm) else {}))"

definition same_library :: "env \<Rightarrow> env \<Rightarrow> bool" where
  "same_library E E' =
     (merge_MergeInto E = merge_MergeInto E' \<and> yaml_Marshal E = yaml_Marshal E' \<and>
      UnmarshalStrict_ComponentConfig E = UnmarshalStrict_ComponentConfig E')"

definition same_file :: "env \<Rightarrow> env \<Rightarrow> string \<Rightarrow> bool" where
  "same_file E E' overridePath =
     (filepath_Abs E overridePath = filepath_Abs E' overridePath \<and>
      (case filepath_Abs E overridePath of
         Inl err \<Rightarrow> True
       | Inr p \<Rightarrow> ReadYamlFromFile E p = ReadYamlFromFile E' p))"

text \<open>
  Two invocations visit the images of a configuration in the same order; and an
  invocation visits every image of the configuration, each once, as the runtime does.
\<close>

definition same_visit_order :: "env \<Rightarrow> env \<Rightarrow> Config \<Rightarrow> bool" where
  "same_visit_order E E' c =
     (case Images c of
        None \<Rightarrow> True
      | Some images \<Rightarrow> range_Images E images = range_Images E' images)"

definition visits_every_image :: "env \<Rightarrow> Config \<Rightarrow> bool" where
  "visits_every_image E c =
     (case Images c of
        None \<Rightarrow> True
      | Some images \<Rightarrow>
          distinct (range_Images E images) \<and> set (range_Images E images) = dom images)"

text \<open>
  A configuration cut short: the sections up to a point in the order of validation
  (\<open>Dev.Ports\<close>, \<open>Dev.Sync\<close>, \<open>Dev.Interactive\<close>, \<open>Commands\<close>, \<open>Hooks\<close>, \<open>Images\<close>,
  \<open>Deployments\<close>), of the section the cut names its first \<open>n\<close> entries, and nothing of
  what comes after.
\<close>

datatype cut =
    CutPorts nat
  | CutSync nat
  | CutInteractive nat
  | CutCommands nat
  | CutHooks nat
  | CutDeployments nat

fun cut_config :: "cut \<Rightarrow> Config \<Rightarrow> Config" where
  "cut_config (CutPorts n) c =
     \<lparr>Dev = map_option
        (\<lambda>dev. \<lparr>dev_Ports = map_option (take n) (dev_Ports dev), dev_Sync = None,
                 dev_Interactive = None\<rparr>) (Dev c),
      Commands = None, Hooks = None, Images = None, Deployments = None\<rparr>"
| "cut_config (CutSync n) c =
     \<lparr>Dev = map_option
        (\<lambda>dev. \<lparr>dev_Ports = dev_Ports dev, dev_Sync = map_option (take n) (dev_Sync dev),
                 dev_Interactive = None\<rparr>) (Dev c),
      Commands = None, Hooks = None, Images = None, Deployments = None\<rparr>"
| "cut_config (CutInteractive n) c =
     \<lparr>Dev = map_option
        (\<lambda>dev. \<lparr>dev_Ports = dev_Ports dev, dev_Sync = dev_Sync dev,
                 dev_Interactive = map_option
                   (\<lambda>interactive.
                      \<lparr>interactive_Images = take n (interactive_Images interactive)\<rparr>)
                   (dev_Interactive dev)\<rparr>) (Dev c),
      Commands = None, Hooks = None, Images = None, Deployments = None\<rparr>"
| "cut_config (CutCommands n) c =
     \<lparr>Dev = Dev c, Commands = map_option (take n) (Commands c), Hooks = None,
      Images = None, Deployments = None\<rparr>"
| "cut_config (CutHooks n) c =
     \<lparr>Dev = Dev c, Commands = Commands c, Hooks = map_option (take n) (Hooks c),
      Images = None, Deployments = None\<rparr>"
| "cut_config (CutDeployments n) c =
     \<lparr>Dev = Dev c, Commands = Commands c, Hooks = Hooks c, Images = Images c,
      Deployments = map_option (take n) (Deployments c)\<rparr>"

section \<open>The validator with one empty-image check\<close>

text \<open>\<open>validate\<close> with the second test of \<open>imageConf.Image == ""\<close> taken out of the loop.\<close>

fun validate_images_single ::
  "(string \<Rightarrow> ImageConfig option) \<Rightarrow> string list \<Rightarrow> error option" where
  "validate_images_single images [] = None"
| "validate_images_single images (imageConfigName # rest) =
     (case images imageConfigName of
        None \<Rightarrow> validate_images_single images rest
      | Some imageConf \<Rightarrow>
         (if image_Image imageConf = []
          then Some (ImageRequired imageConfigName)
          else if custom_command_empty imageConf
          then Some (ImageCustomCommandRequired imageConfigName)
          else validate_images_single images rest))"

definition validate_single :: "env \<Rightarrow> Config \<Rightarrow> error option" where
  "validate_single E c =
     (case (case Dev c of None \<Rightarrow> None | Some dev \<Rightarrow> validate_dev dev) of
        Some e \<Rightarrow> Some e
      | None \<Rightarrow>
     (case (case Commands c of None \<Rightarrow> None | Some cs \<Rightarrow> validate_commands 0 cs) of
        Some e \<Rightarrow> Some e
      | None \<Rightarrow>
     (case (case Hooks c of None \<Rightarrow> None | Some hs \<Rightarrow> validate_hooks 0 hs) of
        Some e \<Rightarrow> Some e
      | None \<Rightarrow>
     (case (case Images c of
              None \<Rightarrow> None
            | Some images \<Rightarrow> validate_images_single images (range_Images E images)) of
        Some e \<Rightarrow> Some e
      | None \<Rightarrow>
     (case Deployments c of
        None \<Rightarrow> None
      | Some ds \<Rightarrow> validate_deployments E 0 ds)))))"

section \<open>The resolver\<close>

text \<open>
  The working directory, and the directories the root locator walks, are absolute: a
  \<open>path\<close> is the list of the components of an absolute path, the root being \<open>[]\<close>.
  There \<open>filepath.Join dir name\<close> is \<open>dir @ [name]\<close>, \<open>filepath.Dir\<close> drops the last
  component and leaves the root as it is, and \<open>len\<close> of the path's text counts a
  separator before every component (one character for the root).
\<close>

type_synonym path = "string list"

definition filepath_Dir :: "path \<Rightarrow> path" where
  "filepath_Dir p = butlast p"

text \<open>The file a path denotes for a process whose working directory is \<open>cwd\<close>.\<close>

fun file_at :: "path \<Rightarrow> filepath \<Rightarrow> path" where
  "file_at cwd (Relative p) = cwd @ p"
| "file_at cwd (Absolute p) = p"

definition path_len :: "path \<Rightarrow> nat" where
  "path_len p = (if p = [] then 1 else sum_list (map (\<lambda>name. Suc (length name)) p))"

text \<open>
  Modelled from the spec: package \<open>constants\<close> is not among the sources. The primary and
  the legacy configuration file have two fixed, distinct names; the names are those of
  the comments in \<open>configExistsInPath\<close>.
\<close>

definition DefaultConfigPath :: string where
  "DefaultConfigPath = ''devspace.yaml''"

definition DefaultConfigsPath :: string where
  "DefaultConfigsPath = ''devspace-configs.yaml''"

record ConfigOptions =
  Profile :: string
  KubeContext :: string
  LoadedVars :: "string \<Rightarrow> string option"
  Vars :: "string list"

text \<open>\<open>&ConfigOptions{}\<close>, the options a call without options starts from.\<close>

definition empty_ConfigOptions :: ConfigOptions where
  "empty_ConfigOptions =
     \<lparr>Profile = [], KubeContext = [], LoadedVars = Map.empty, Vars = []\<rparr>"

record GeneratedConfig =
  ActiveProfile :: string
  generated_Deployments :: "string \<Rightarrow> string option"

text \<open>
  What the resolver calls outside the sources at hand, as the world answers at the time
  of the call: \<open>generated.LoadConfig\<close> and \<open>generated.SaveConfig\<close>, \<open>os.Stat\<close> (\<open>None\<close>
  when the file is there, else the error's text), \<open>ioutil.ReadFile\<close>, \<open>yaml.Unmarshal\<close>,
  \<open>ParseConfig\<close> (which receives the generated configuration by pointer and may update it),
  the package variable \<open>LoadedVars\<close>, \<open>latest.New\<close>, \<open>os.Getwd\<close> (\<open>Some\<close> error when it
  fails), \<open>homedir.Dir\<close> and \<open>os.Chdir\<close>.
\<close>

record world =
  generated_LoadConfig :: "string \<Rightarrow> error + GeneratedConfig"
  generated_SaveConfig :: "GeneratedConfig \<Rightarrow> error option"
  os_Stat :: "path \<Rightarrow> string option"
  ioutil_ReadFile :: "path \<Rightarrow> error + string"
  yaml_Unmarshal :: "string \<Rightarrow> error + values"
  ParseConfig :: "GeneratedConfig \<Rightarrow> values \<Rightarrow> ConfigOptions \<Rightarrow> error + Config \<times> GeneratedConfig"
  global_LoadedVars :: "string \<Rightarrow> string option"
  validate_env :: env
  latest_New :: Config
  os_Getwd_error :: "error option"
  homedir_Dir :: "error + path"
  os_Chdir :: "path \<Rightarrow> error option"

text \<open>
  The steps of the pipeline, logged when they run: the log is how a run of the pipeline
  shows in the state. \<open>EvInfo\<close> is the note \<open>SetDevSpaceRoot\<close> prints.
\<close>

datatype event =
    EvLoadConfig
  | EvStat
  | EvReadFile
  | EvUnmarshal
  | EvParseConfig
  | EvValidate
  | EvSaveConfig
  | EvInfo path

text \<open>
  The package variables \<open>config\<close>, \<open>getConfigOnce\<close> (whether the \<open>sync.Once\<close> has run) and
  \<open>getConfigOnceErr\<close>, the working directory of the process, and the log. Every function
  below that takes \<open>getConfigOnceMutex\<close> holds it from entry to return, so calls from
  several goroutines run one after another: a call is one step on the state.
\<close>

record state =
  config :: "Config option"
  getConfigOnce :: bool
  getConfigOnceErr :: "error option"
  os_cwd :: path
  trace :: "event list"

definition cold :: "path \<Rightarrow> state" where
  "cold dir =
     \<lparr>config = None, getConfigOnce = False, getConfigOnceErr = None, os_cwd = dir,
      trace = []\<rparr>"

definition log_events :: "event list \<Rightarrow> state \<Rightarrow> state" where
  "log_events evs s = s\<lparr>trace := trace s @ evs\<rparr>"

definition configExistsInPath :: "world \<Rightarrow> state \<Rightarrow> path \<Rightarrow> bool" where
  "configExistsInPath W s p =
     (if config s \<noteq> None then True
      else if os_Stat W (p @ [DefaultConfigPath]) = None then True
      else if os_Stat W (p @ [DefaultConfigsPath]) = None then True
      else False)"

definition ResetConfig :: "state \<Rightarrow> state" where
  "ResetConfig s = s\<lparr>getConfigOnce := False\<rparr>"

definition InitConfig :: "world \<Rightarrow> state \<Rightarrow> Config option \<times> state" where
  "InitConfig W s =
     (if getConfigOnce s then (config s, s)
      else (Some (latest_New W), s\<lparr>config := Some (latest_New W), getConfigOnce := True\<rparr>))"

text \<open>
  \<open>GetRawConfig\<close> and \<open>GetConfigFromPath\<close> run in a process whose working directory is
  \<open>cwd\<close>: the files they ask for are those their paths denote there.
\<close>

definition GetRawConfig ::
  "world \<Rightarrow> path \<Rightarrow> filepath \<Rightarrow> (error + values) \<times> event list" where
  "GetRawConfig W cwd configPath =
     (case ioutil_ReadFile W (file_at cwd configPath) of
        Inl err \<Rightarrow> (Inl err, [EvReadFile])
      | Inr fileContent \<Rightarrow>
         (case yaml_Unmarshal W fileContent of
            Inl err \<Rightarrow> (Inl err, [EvReadFile, EvUnmarshal])
          | Inr rawMap \<Rightarrow> (Inr rawMap, [EvReadFile, EvUnmarshal])))"

definition GetConfigFromPath ::
  "world \<Rightarrow> path \<Rightarrow> GeneratedConfig \<Rightarrow> filepath \<Rightarrow> ConfigOptions option \<Rightarrow>
   (error + Config \<times> GeneratedConfig) \<times> event list" where
  "GetConfigFromPath W cwd generatedConfig basePath options =
     (let opts = (case options of None \<Rightarrow> empty_ConfigOptions | Some given \<Rightarrow> given);
          configPath = filepath_Join basePath DefaultConfigPath
      in case os_Stat W (file_at cwd configPath) of
           Some err \<Rightarrow>
             (case os_Stat W (file_at cwd (filepath_Join basePath DefaultConfigsPath)) of
                None \<Rightarrow> (Inl LegacyConfigsNotSupported, [EvStat, EvStat])
              | Some configErr \<Rightarrow> (Inl (CouldntFind configPath err), [EvStat, EvStat]))
         | None \<Rightarrow>
             (case GetRawConfig W cwd configPath of
                (Inl err, evs) \<Rightarrow> (Inl err, EvStat # evs)
              | (Inr rawMap, evs) \<Rightarrow>
                 (case ParseConfig W generatedConfig rawMap opts of
                    Inl err \<Rightarrow> (Inl err, EvStat # evs @ [EvParseConfig])
                  | Inr (loadedConfig, generatedConfig') \<Rightarrow>
                     (case validate (validate_env W) loadedConfig of
                        Some err \<Rightarrow> (Inl err, EvStat # evs @ [EvParseConfig, EvValidate])
                      | None \<Rightarrow>
                         (Inr (loadedConfig, generatedConfig'),
                          EvStat # evs @ [EvParseConfig, EvValidate])))))"

text \<open>
  The profile a first call resolves to, and the two writes to the options the caller
  passed (lines 186 to 193 of the function).
\<close>

definition select_profile :: "bool \<Rightarrow> GeneratedConfig \<Rightarrow> ConfigOptions \<Rightarrow> ConfigOptions" where
  "select_profile allowProfile generatedConfig options =
     (if allowProfile \<and> ActiveProfile generatedConfig \<noteq> [] \<and> Profile options = []
      then options\<lparr>Profile := ActiveProfile generatedConfig\<rparr>
      else if \<not> allowProfile then options\<lparr>Profile := []\<rparr>
      else options)"

text \<open>
  \<open>loadConfigOnce\<close> returns the pair \<open>(config, getConfigOnceErr)\<close> it reads from the
  package variables at the end, and leaves the caller's options object (\<open>None\<close> when the
  caller passed \<open>nil\<close>) and the state as the second and third component. It loads from
  the base path \<open>"."\<close>, in the working directory of the process.
\<close>

definition returned ::
  "ConfigOptions option \<Rightarrow> state \<Rightarrow> (Config option \<times> error option) \<times> ConfigOptions option \<times> state"
  where
  "returned options s = ((config s, getConfigOnceErr s), options, s)"

definition loadConfigOnce ::
  "world \<Rightarrow> ConfigOptions option \<Rightarrow> bool \<Rightarrow> state \<Rightarrow>
   (Config option \<times> error option) \<times> ConfigOptions option \<times> state" where
  "loadConfigOnce W options allowProfile s =
     (if getConfigOnce s then returned options s
      else
        (let s1 = s\<lparr>getConfigOnce := True\<rparr>;
             opts = (case options of None \<Rightarrow> empty_ConfigOptions | Some given \<Rightarrow> given)
         in case generated_LoadConfig W (Profile opts) of
              Inl err \<Rightarrow>
                returned options (log_events [EvLoadConfig] (s1\<lparr>getConfigOnceErr := Some err\<rparr>))
            | Inr generatedConfig \<Rightarrow>
               (let opts' = (select_profile allowProfile generatedConfig opts)
                              \<lparr>LoadedVars := global_LoadedVars W\<rparr>;
                    options' = map_option (\<lambda>given. opts') options
                in case GetConfigFromPath W (os_cwd s1) generatedConfig (Relative [])
                          (Some opts') of
                     (Inl err, evs) \<Rightarrow>
                       returned options'
                         (log_events (EvLoadConfig # evs)
                            (s1\<lparr>config := None, getConfigOnceErr := Some err\<rparr>))
                   | (Inr (loadedConfig, generatedConfig'), evs) \<Rightarrow>
                      (case generated_SaveConfig W generatedConfig' of
                         Some err \<Rightarrow>
                           returned options'
                             (log_events (EvLoadConfig # evs @ [EvSaveConfig])
                                (s1\<lparr>config := Some loadedConfig, getConfigOnceErr := Some err\<rparr>))
                       | None \<Rightarrow>
                           returned options'
                             (log_events (EvLoadConfig # evs @ [EvSaveConfig])
                                (s1\<lparr>config := Some loadedConfig\<rparr>))))))"

definition GetBaseConfig ::
  "world \<Rightarrow> ConfigOptions option \<Rightarrow> state \<Rightarrow>
   (Config option \<times> error option) \<times> ConfigOptions option \<times> state" where
  "GetBaseConfig W options s = loadConfigOnce W options False s"

definition GetConfig ::
  "world \<Rightarrow> ConfigOptions option \<Rightarrow> state \<Rightarrow>
   (Config option \<times> error option) \<times> ConfigOptions option \<times> state" where
  "GetConfig W options s = loadConfigOnce W options True s"

text \<open>
  A resolution call: the entry point, the world at the time of the call and the options.
  \<open>run_calls\<close> makes the calls one after another and collects what each returns.
\<close>

datatype entry = ViaGetConfig | ViaGetBaseConfig

definition resolve ::
  "entry \<times> world \<times> ConfigOptions option \<Rightarrow> state \<Rightarrow>
   (Config option \<times> error option) \<times> ConfigOptions option \<times> state" where
  "resolve call s =
     (case call of
        (ViaGetConfig, W, options) \<Rightarrow> GetConfig W options s
      | (ViaGetBaseConfig, W, options) \<Rightarrow> GetBaseConfig W options s)"


definition full_pipeline :: "event list" where
  "full_pipeline =
     [EvLoadConfig, EvStat, EvReadFile, EvUnmarshal, EvParseConfig, EvValidate, EvSaveConfig]"



section \<open>Locating the project root\<close>

text \<open>
  The loop of \<open>SetDevSpaceRoot\<close>, on the local variables \<open>cwd\<close> and \<open>lastLength\<close>. It ends:
  the path gets shorter until it is the root, whose length the next round finds unchanged.
\<close>

function SetDevSpaceRoot_loop ::
  "world \<Rightarrow> path \<Rightarrow> path \<Rightarrow> path \<Rightarrow> nat \<Rightarrow> state \<Rightarrow> (bool \<times> error option) \<times> state" where
  "SetDevSpaceRoot_loop W originalCwd homedir cwd lastLength s =
     (if path_len cwd \<noteq> lastLength
      then
        (if cwd \<noteq> homedir \<and> configExistsInPath W s cwd
         then
           (case os_Chdir W cwd of
              Some err \<Rightarrow> ((False, Some err), s)
            | None \<Rightarrow>
                ((True, None),
                 log_events (if originalCwd \<noteq> cwd then [EvInfo cwd] else [])
                   (s\<lparr>os_cwd := cwd\<rparr>)))
         else SetDevSpaceRoot_loop W originalCwd homedir (filepath_Dir cwd) (path_len cwd) s)
      else ((False, None), s))"
  by pat_completeness auto
termination
  by (relation "measure (\<lambda>(W, originalCwd, homedir, cwd, lastLength, s).
        2 * length cwd + (if path_len cwd \<noteq> lastLength then 1 else 0))")
     (auto simp: filepath_Dir_def path_len_def)

definition SetDevSpaceRoot :: "world \<Rightarrow> state \<Rightarrow> (bool \<times> error option) \<times> state" where
  "SetDevSpaceRoot W s =
     (case os_Getwd_error W of
        Some err \<Rightarrow> ((False, Some err), s)
      | None \<Rightarrow>
         (case homedir_Dir W of
            Inl err \<Rightarrow> ((False, Some err), s)
          | Inr homedir \<Rightarrow> SetDevSpaceRoot_loop W (os_cwd s) homedir (os_cwd s) 0 s))"

section \<open>The helm deployment client\<close>

text \<open>
  \<open>New\<close> receives \<open>deployConfig\<close> by pointer, and the pointer is the one the configuration
  holds in \<open>config.Deployments\<close>. The deployment objects live in a heap, from addresses to
  objects; the configuration holds the addresses. \<open>read_config\<close> is the configuration as a
  reader sees it through the heap. Of the client \<open>New\<close> builds, the fields \<open>Helm\<close> (left
  nil) and \<open>Log\<close> are left out.
\<close>

type_synonym addr = nat

type_synonym heap = "addr \<Rightarrow> DeploymentConfig"

record ConfigRef =
  ref_Sections :: Config
  ref_Deployments :: "addr list option"

definition read_config :: "heap \<Rightarrow> ConfigRef \<Rightarrow> Config" where
  "read_config h c = (ref_Sections c)\<lparr>Deployments := map_option (map h) (ref_Deployments c)\<rparr>"

definition DevSpaceChartConfig :: ChartConfig where
  "DevSpaceChartConfig =
     \<lparr>chart_Name = ''component-chart'', chart_Version = ''v0.0.6'',
      chart_RepoURL = ''https://charts.devspace.cloud''\<rparr>"

record KubeClient =
  kube_Namespace :: string

record DeployConfig =
  Kube :: KubeClient
  TillerNamespace :: string
  DeploymentConfig_ptr :: addr
  deploy_config :: ConfigRef

datatype panic = NilPointerDereference

text \<open>
  \<open>kubeClient\<close>, \<open>deployConfig\<close> and \<open>deployConfig.Helm\<close> are dereferenced without a test:
  a nil one of them panics.
\<close>

definition New ::
  "heap \<Rightarrow> ConfigRef \<Rightarrow> KubeClient option \<Rightarrow> addr option \<Rightarrow> panic + DeployConfig \<times> heap" where
  "New h c kubeClient deployConfig =
     (case kubeClient of
        None \<Rightarrow> Inl NilPointerDereference
      | Some kube \<Rightarrow>
         (case deployConfig of
            None \<Rightarrow> Inl NilPointerDereference
          | Some p \<Rightarrow>
             (case deployment_Helm (h p) of
                None \<Rightarrow> Inl NilPointerDereference
              | Some helm \<Rightarrow>
                 (let tillerNamespace =
                        (if helm_TillerNamespace helm \<noteq> [] then helm_TillerNamespace helm
                         else kube_Namespace kube);
                      h' = (if helm_ComponentChart helm = Some True
                            then h(p := (h p)\<lparr>deployment_Helm :=
                                   Some (helm\<lparr>helm_Chart := Some DevSpaceChartConfig\<rparr>)\<rparr>)
                            else h)
                  in Inr (\<lparr>Kube = kube, TillerNamespace = tillerNamespace,
                           DeploymentConfig_ptr = p, deploy_config = c\<rparr>, h')))))"

section \<open>Sample inputs\<close>

text \<open>
  Concrete worlds and configurations, on which the theorems below are run. In
  \<open>files_env files\<close> the project lies in \<open>/project\<close>, the files that can be read are those
  of the list, with the documents they hold, documents merge as \<open>MergeInto\<close> says, and
  the component schema has no field \<open>unknownField\<close>: a document that has this key does
  not decode. Its configurations have no images, and nothing to visit; \<open>visiting order\<close>
  is that environment with a runtime that visits the images in the given order.
\<close>

definition files_env :: "(string \<times> values) list \<Rightarrow> env" where
  "files_env files =
     \<lparr>filepath_Abs = (\<lambda>overridePath. Inr (''/project/'' @ overridePath)),
      ReadYamlFromFile =
        (\<lambda>p. case map_of files p of
                None \<Rightarrow> Inl ''no such file or directory''
              | Some doc \<Rightarrow> Inr doc),
      merge_MergeInto = MergeInto,
      yaml_Marshal =
        (\<lambda>doc. Inr (if doc ''unknownField'' = None then ''{}'' else ''unknownField: 1'')),
      UnmarshalStrict_ComponentConfig =
        (\<lambda>bytes. if bytes = ''{}'' then None
                  else Some ''field unknownField not found in type latest.ComponentConfig''),
      range_Images = (\<lambda>images. [])\<rparr>"

definition visiting :: "string list \<Rightarrow> env" where
  "visiting order = (files_env [])\<lparr>range_Images := (\<lambda>images. order)\<rparr>"

definition empty_Config :: Config where
  "empty_Config =
     \<lparr>Dev = None, Commands = None, Hooks = None, Images = None, Deployments = None\<rparr>"

definition plain_helm :: HelmConfig where
  "plain_helm =
     \<lparr>helm_Chart = None, helm_ComponentChart = None, helm_ValuesFiles = None,
      helm_Values = None, helm_TillerNamespace = []\<rparr>"

definition nginx_chart :: ChartConfig where
  "nginx_chart = \<lparr>chart_Name = ''nginx'', chart_Version = ''1.0.0'', chart_RepoURL = []\<rparr>"

definition kubectl_deployment :: DeploymentConfig where
  "kubectl_deployment =
     \<lparr>deployment_Name = ''web'', deployment_Helm = None,
      deployment_Kubectl = Some \<lparr>kubectl_Manifests = Some [''kube/web.yaml'']\<rparr>\<rparr>"

definition helm_and_kubectl_deployment :: DeploymentConfig where
  "helm_and_kubectl_deployment =
     \<lparr>deployment_Name = ''app'',
      deployment_Helm = Some (plain_helm\<lparr>helm_Chart := Some nginx_chart\<rparr>),
      deployment_Kubectl = Some \<lparr>kubectl_Manifests = Some [''kube/app.yaml'']\<rparr>\<rparr>"

definition untyped_deployment :: DeploymentConfig where
  "untyped_deployment =
     \<lparr>deployment_Name = ''db'', deployment_Helm = None, deployment_Kubectl = None\<rparr>"

definition component_deployment :: "string list option \<Rightarrow> values option \<Rightarrow> DeploymentConfig" where
  "component_deployment files inline =
     \<lparr>deployment_Name = ''api'',
      deployment_Helm =
        Some (plain_helm\<lparr>helm_ComponentChart := Some True, helm_ValuesFiles := files,
                helm_Values := inline\<rparr>),
      deployment_Kubectl = None\<rparr>"

definition empty_port_mappings_config :: Config where
  "empty_port_mappings_config =
     empty_Config\<lparr>Dev := Some
       \<lparr>dev_Ports = Some
          [\<lparr>port_ImageName = ''app'', port_LabelSelector = None, port_PortMappings = Some []\<rparr>],
        dev_Sync = None, dev_Interactive = None\<rparr>\<rparr>"

definition two_bad_images :: "string \<Rightarrow> ImageConfig option" where
  "two_bad_images =
     [''api'' \<mapsto> \<lparr>image_Image = [], image_Build = None\<rparr>,
      ''web'' \<mapsto> \<lparr>image_Image = [], image_Build = None\<rparr>]"

definition bad_images_config :: Config where
  "bad_images_config = empty_Config\<lparr>Images := Some two_bad_images\<rparr>"

definition failing_port_config :: Config where
  "failing_port_config =
     empty_Config\<lparr>Dev := Some
       \<lparr>dev_Ports = Some
          [\<lparr>port_ImageName = [], port_LabelSelector = None, port_PortMappings = None\<rparr>,
           \<lparr>port_ImageName = ''app'', port_LabelSelector = None, port_PortMappings = None\<rparr>],
        dev_Sync = None, dev_Interactive = None\<rparr>,
       Deployments := Some [untyped_deployment]\<rparr>"

definition replicas_file_env :: env where
  "replicas_file_env = files_env [(''/project/values.yaml'', [''replicas'' \<mapsto> Scalar ''1''])]"

definition unknown_field_env :: env where
  "unknown_field_env =
     files_env [(''/project/values.yaml'', [''unknownField'' \<mapsto> Scalar ''1''])]"

definition other_file_env :: env where
  "other_file_env =
     files_env [(''/project/values.yaml'', [''replicas'' \<mapsto> Scalar ''1'']),
                (''/project/other.yaml'', [''unknownField'' \<mapsto> Scalar ''1''])]"

definition inline_helm :: HelmConfig where
  "inline_helm =
     plain_helm\<lparr>helm_ComponentChart := Some True,
       helm_ValuesFiles := Some [''missing.yaml'', ''values.yaml''],
       helm_Values := Some [''replicas'' \<mapsto> Scalar ''3'', ''image'' \<mapsto> Scalar ''x'']\<rparr>"

definition values_file_config :: Config where
  "values_file_config =
     empty_Config\<lparr>Deployments :=
       Some [kubectl_deployment, component_deployment (Some [''values.yaml'']) None]\<rparr>"

text \<open>
  \<open>project_world files generated\<close>: the files that exist are those of the list,
  \<open>generated.LoadConfig\<close> answers \<open>generated\<close>, the configuration file decodes to
  \<open>resolved_config\<close>, the home directory is \<open>/home/dev\<close>, and saving and changing the
  directory succeed.
\<close>

definition resolved_config :: Config where
  "resolved_config = empty_Config\<lparr>Deployments := Some [kubectl_deployment]\<rparr>"

definition project_world :: "path list \<Rightarrow> error + GeneratedConfig \<Rightarrow> world" where
  "project_world files generated =
     \<lparr>generated_LoadConfig = (\<lambda>profile. generated),
      generated_SaveConfig = (\<lambda>generatedConfig. None),
      os_Stat = (\<lambda>p. if p \<in> set files then None else Some ''no such file or directory''),
      ioutil_ReadFile =
        (\<lambda>p. if p \<in> set files then Inr ''version: v1beta3''
              else Inl (External ''no such file or directory'')),
      yaml_Unmarshal = (\<lambda>fileContent. Inr [''version'' \<mapsto> Scalar ''v1beta3'']),
      ParseConfig = (\<lambda>generatedConfig rawMap options. Inr (resolved_config, generatedConfig)),
      global_LoadedVars = [''USER'' \<mapsto> ''dev''],
      validate_env = files_env [],
      latest_New = empty_Config,
      os_Getwd_error = None,
      homedir_Dir = Inr [''home'', ''dev''],
      os_Chdir = (\<lambda>p. None)\<rparr>"

definition staging_generated :: GeneratedConfig where
  "staging_generated = \<lparr>ActiveProfile = ''staging'', generated_Deployments = Map.empty\<rparr>"

definition caller_options :: ConfigOptions where
  "caller_options =
     \<lparr>Profile = [], KubeContext = ''minikube'', LoadedVars = [''REGION'' \<mapsto> ''eu''],
      Vars = [''TAG=1'']\<rparr>"

definition primary_world :: world where
  "primary_world = project_world [[''project'', ''devspace.yaml'']] (Inr staging_generated)"

definition legacy_world :: world where
  "legacy_world = project_world [[''project'', ''devspace-configs.yaml'']] (Inr staging_generated)"

definition broken_generated_world :: world where
  "broken_generated_world =
     project_world [[''project'', ''devspace.yaml'']] (Inl (External ''yaml: malformed generated.yaml''))"

definition missing_world :: world where
  "missing_world = project_world [] (Inr staging_generated)"


definition component_heap :: heap where
  "component_heap = (\<lambda>p. component_deployment None None)"

definition chart_heap :: heap where
  "chart_heap = (\<lambda>p. helm_and_kubectl_deployment)"

definition component_ref :: ConfigRef where
  "component_ref = \<lparr>ref_Sections = empty_Config, ref_Deployments = Some [0]\<rparr>"

section \<open>Properties of the validator\<close>

subsection \<open>The duplicated empty-image check\<close>

lemma validate_images_single_eq:
  "validate_images images order = validate_images_single images order"
  by (induction images order rule: validate_images.induct) (simp_all split: option.splits)

text \<open>
  C9. The second test of \<open>imageConf.Image == ""\<close> in the loop over \<open>Images\<close> cannot fire:
  the first test of the same condition has returned already. \<open>validate\<close> and \<open>validate\<close>
  without the second test return the same result on every configuration, in every
  environment.
\<close>

theorem validate_second_image_check_redundant: "validate E c = validate_single E c"
  by (simp add: validate_def validate_single_def validate_images_single_eq
      cong: option.case_cong)

text \<open>
  Whether the images pass does not depend on the order in which the map is visited, as
  long as every image is visited; the image an error names does.
\<close>

lemma validate_images_accepts:
  "(validate_images images order = None) =
     (\<forall>name \<in> set order. \<forall>imageConf. images name = Some imageConf \<longrightarrow>
        image_Image imageConf \<noteq> [] \<and> \<not> custom_command_empty imageConf)"
  by (induction images order rule: validate_images.induct) (auto split: option.splits)

lemma validate_images_accepts_every:
  "set order = dom images \<Longrightarrow>
   (validate_images images order = None) =
     (\<forall>name imageConf. images name = Some imageConf \<longrightarrow>
        image_Image imageConf \<noteq> [] \<and> \<not> custom_command_empty imageConf)"
  by (auto simp: validate_images_accepts dom_def)

subsection \<open>What the result depends on\<close>

lemma load_values_files_agree:
  "merge_MergeInto E = merge_MergeInto E' \<Longrightarrow> \<forall>p \<in> set files. same_file E E' p \<Longrightarrow>
   load_values_files E i files acc = load_values_files E' i files acc"
proof (induction files arbitrary: acc)
  case Nil
  then show ?case by simp
next
  case (Cons p files)
  from Cons.prems have sf: "same_file E E' p" and rest: "\<forall>q \<in> set files. same_file E E' q"
    by simp_all
  from sf have abs: "filepath_Abs E' p = filepath_Abs E p"
    by (simp add: same_file_def)
  show ?case
  proof (cases "filepath_Abs E p")
    case (Inl err)
    with abs show ?thesis by simp
  next
    case (Inr a)
    with sf have rd: "ReadYamlFromFile E' a = ReadYamlFromFile E a"
      by (simp add: same_file_def)
    show ?thesis
      using Inr abs rd Cons.IH [OF Cons.prems(1) rest] Cons.prems(1)
      by (simp split: sum.splits)
  qed
qed

lemma component_values_agree:
  "same_library E E' \<Longrightarrow> \<forall>p \<in> set (values_files helm). same_file E E' p \<Longrightarrow>
   validate_component_values E i helm = validate_component_values E' i helm"
  using load_values_files_agree [of E E' "values_files helm" i Map.empty]
  by (simp add: validate_component_values_def overwrite_values_def same_library_def
      values_files_def cong: option.case_cong sum.case_cong)

lemma deployment_agree:
  "same_library E E' \<Longrightarrow>
   \<forall>p \<in> (case deployment_Helm d of
          None \<Rightarrow> {}
        | Some helm \<Rightarrow>
           (if helm_ComponentChart helm = Some True then set (values_files helm) else {})).
      same_file E E' p \<Longrightarrow>
   validate_deployment E i d = validate_deployment E' i d"
  by (cases "deployment_Helm d")
     (simp_all add: validate_deployment_def component_values_agree)

lemma deployments_agree:
  "same_library E E' \<Longrightarrow>
   \<forall>d \<in> set ds. \<forall>p \<in> (case deployment_Helm d of
          None \<Rightarrow> {}
        | Some helm \<Rightarrow>
           (if helm_ComponentChart helm = Some True then set (values_files helm) else {})).
      same_file E E' p \<Longrightarrow>
   validate_deployments E i ds = validate_deployments E' i ds"
  by (induction ds arbitrary: i) (simp_all add: deployment_agree cong: option.case_cong)

lemma deployments_of_agree:
  assumes "same_library E E'" and "\<forall>p \<in> component_chart_files c. same_file E E' p"
  shows "validate_deployments E i (deployments_of c) = validate_deployments E' i (deployments_of c)"
proof -
  from assms(2) have "\<forall>d \<in> set (deployments_of c). \<forall>p \<in> (case deployment_Helm d of
          None \<Rightarrow> {}
        | Some helm \<Rightarrow>
           (if helm_ComponentChart helm = Some True then set (values_files helm) else {})).
      same_file E E' p"
    by (auto simp: component_chart_files_def)
  from deployments_agree [OF assms(1) this] show ?thesis .
qed

text \<open>
  \<open>validate\<close> in three parts: the sections before \<open>Images\<close>, which ask nothing of the
  environment, the images, and the deployments.
\<close>

lemma validate_parts:
  "validate E c =
     (case validate E (c\<lparr>Images := None, Deployments := None\<rparr>) of
        Some e \<Rightarrow> Some e
      | None \<Rightarrow>
         (case (case Images c of
                  None \<Rightarrow> None
                | Some images \<Rightarrow> validate_images images (range_Images E images)) of
            Some e \<Rightarrow> Some e
          | None \<Rightarrow> validate_deployments E 0 (deployments_of c)))"
  by (simp add: validate_def deployments_of_def split: option.splits)

lemma validate_front_env:
  "validate E (c\<lparr>Images := None, Deployments := None\<rparr>) =
   validate E' (c\<lparr>Images := None, Deployments := None\<rparr>)"
  by (simp add: validate_def cong: option.case_cong)

lemma validate_None_iff:
  "(validate E c = None) =
     (validate E (c\<lparr>Images := None, Deployments := None\<rparr>) = None \<and>
      (case Images c of
         None \<Rightarrow> None
       | Some images \<Rightarrow> validate_images images (range_Images E images)) = None \<and>
      validate_deployments E 0 (deployments_of c) = None)"
  by (subst validate_parts) (simp split: option.splits)

lemma validate_agree:
  assumes "same_library E E'" and "same_visit_order E E' c"
    and "\<forall>p \<in> component_chart_files c. same_file E E' p"
  shows "validate E c = validate E' c"
proof -
  have img: "(case Images c of None \<Rightarrow> None
              | Some images \<Rightarrow> validate_images images (range_Images E images)) =
             (case Images c of None \<Rightarrow> None
              | Some images \<Rightarrow> validate_images images (range_Images E' images))"
    using assms(2) by (simp add: same_visit_order_def split: option.splits)
  have front: "validate E (c\<lparr>Images := None, Deployments := None\<rparr>) =
      validate E' (c\<lparr>Images := None, Deployments := None\<rparr>)"
    by (rule validate_front_env)
  have dep: "validate_deployments E 0 (deployments_of c) =
      validate_deployments E' 0 (deployments_of c)"
    using assms(1,3) by (rule deployments_of_agree)
  show ?thesis
    by (subst validate_parts [of E c], subst validate_parts [of E' c])
       (simp only: front img dep)
qed

lemma validate_accepts_agree:
  assumes "same_library E E'" and "visits_every_image E c" and "visits_every_image E' c"
    and "\<forall>p \<in> component_chart_files c. same_file E E' p"
  shows "(validate E c = None) = (validate E' c = None)"
proof -
  have img: "((case Images c of None \<Rightarrow> None
              | Some images \<Rightarrow> validate_images images (range_Images E images)) = None) =
             ((case Images c of None \<Rightarrow> None
              | Some images \<Rightarrow> validate_images images (range_Images E' images)) = None)"
    using assms(2,3)
    by (simp add: visits_every_image_def validate_images_accepts_every split: option.splits)
  have front: "validate E (c\<lparr>Images := None, Deployments := None\<rparr>) =
      validate E' (c\<lparr>Images := None, Deployments := None\<rparr>)"
    by (rule validate_front_env)
  have dep: "validate_deployments E 0 (deployments_of c) =
      validate_deployments E' 0 (deployments_of c)"
    using assms(1,4) by (rule deployments_of_agree)
  show ?thesis
    by (simp only: validate_None_iff [of E c] validate_None_iff [of E' c] front img dep)
qed

subsection \<open>Fail-fast\<close>

lemma ports_append:
  "validate_ports i (pre @ post) =
     (case validate_ports i pre of
        Some e \<Rightarrow> Some e | None \<Rightarrow> validate_ports (i + length pre) post)"
  by (induction pre arbitrary: i) (simp_all cong: option.case_cong)

lemma sync_append:
  "validate_sync i (pre @ post) =
     (case validate_sync i pre of
        Some e \<Rightarrow> Some e | None \<Rightarrow> validate_sync (i + length pre) post)"
  by (induction pre arbitrary: i) (simp_all cong: option.case_cong)

lemma interactive_append:
  "validate_interactive i (pre @ post) =
     (case validate_interactive i pre of
        Some e \<Rightarrow> Some e | None \<Rightarrow> validate_interactive (i + length pre) post)"
  by (induction pre arbitrary: i) (simp_all cong: option.case_cong)

lemma commands_append:
  "validate_commands i (pre @ post) =
     (case validate_commands i pre of
        Some e \<Rightarrow> Some e | None \<Rightarrow> validate_commands (i + length pre) post)"
  by (induction pre arbitrary: i) (simp_all cong: option.case_cong)

lemma hooks_append:
  "validate_hooks i (pre @ post) =
     (case validate_hooks i pre of
        Some e \<Rightarrow> Some e | None \<Rightarrow> validate_hooks (i + length pre) post)"
  by (induction pre arbitrary: i) (simp_all cong: option.case_cong)

lemma validate_deployments_append:
  "validate_deployments E i (pre @ rest) =
     (case validate_deployments E i pre of
        Some e \<Rightarrow> Some e
      | None \<Rightarrow> validate_deployments E (i + length pre) rest)"
  by (induction pre arbitrary: i) (simp_all split: option.splits)

lemma ports_take: "validate_ports i (take n ps) = Some e \<Longrightarrow> validate_ports i ps = Some e"
  using ports_append [of i "take n ps" "drop n ps"] by simp

lemma sync_take: "validate_sync i (take n ps) = Some e \<Longrightarrow> validate_sync i ps = Some e"
  using sync_append [of i "take n ps" "drop n ps"] by simp

lemma interactive_take:
  "validate_interactive i (take n ps) = Some e \<Longrightarrow> validate_interactive i ps = Some e"
  using interactive_append [of i "take n ps" "drop n ps"] by simp

lemma commands_take:
  "validate_commands i (take n ps) = Some e \<Longrightarrow> validate_commands i ps = Some e"
  using commands_append [of i "take n ps" "drop n ps"] by simp

lemma hooks_take: "validate_hooks i (take n ps) = Some e \<Longrightarrow> validate_hooks i ps = Some e"
  using hooks_append [of i "take n ps" "drop n ps"] by simp

lemma deployments_take:
  "validate_deployments E i (take n ds) = Some e \<Longrightarrow> validate_deployments E i ds = Some e"
  using validate_deployments_append [of E i "take n ds" "drop n ds"] by simp

lemma dev_cut_ports:
  "validate_dev \<lparr>dev_Ports = map_option (take n) (dev_Ports dev), dev_Sync = None,
      dev_Interactive = None\<rparr> = Some e \<Longrightarrow> validate_dev dev = Some e"
  by (cases "dev_Ports dev") (auto simp: validate_dev_def cong: option.case_cong split: option.splits dest: ports_take)

lemma dev_cut_sync:
  "validate_dev \<lparr>dev_Ports = dev_Ports dev, dev_Sync = map_option (take n) (dev_Sync dev),
      dev_Interactive = None\<rparr> = Some e \<Longrightarrow> validate_dev dev = Some e"
  by (cases "dev_Sync dev")
     (auto simp: validate_dev_def cong: option.case_cong split: option.splits dest: sync_take)

lemma dev_cut_interactive:
  "validate_dev \<lparr>dev_Ports = dev_Ports dev, dev_Sync = dev_Sync dev,
      dev_Interactive = map_option
        (\<lambda>interactive. \<lparr>interactive_Images = take n (interactive_Images interactive)\<rparr>)
        (dev_Interactive dev)\<rparr> = Some e \<Longrightarrow> validate_dev dev = Some e"
  by (cases "dev_Interactive dev")
     (auto simp: validate_dev_def cong: option.case_cong split: option.splits
       dest: interactive_take)

lemma validate_dev_first:
  "(case Dev c of None \<Rightarrow> None | Some dev \<Rightarrow> validate_dev dev) = Some e \<Longrightarrow>
   validate E c = Some e"
  by (simp add: validate_def)

lemma validate_cut:
  "validate E (cut_config k c) = Some e \<Longrightarrow> validate E c = Some e"
proof (cases k)
  case (CutPorts n)
  assume "validate E (cut_config k c) = Some e"
  with CutPorts have "(case Dev c of None \<Rightarrow> None | Some dev \<Rightarrow> validate_dev dev) = Some e"
    by (cases "Dev c")
       (auto simp: validate_def cong: option.case_cong split: option.splits dest: dev_cut_ports)
  then show ?thesis by (rule validate_dev_first)
next
  case (CutSync n)
  assume "validate E (cut_config k c) = Some e"
  with CutSync have "(case Dev c of None \<Rightarrow> None | Some dev \<Rightarrow> validate_dev dev) = Some e"
    by (cases "Dev c")
       (auto simp: validate_def cong: option.case_cong split: option.splits dest: dev_cut_sync)
  then show ?thesis by (rule validate_dev_first)
next
  case (CutInteractive n)
  assume "validate E (cut_config k c) = Some e"
  with CutInteractive
  have "(case Dev c of None \<Rightarrow> None | Some dev \<Rightarrow> validate_dev dev) = Some e"
    by (cases "Dev c")
       (auto simp: validate_def cong: option.case_cong split: option.splits dest: dev_cut_interactive)
  then show ?thesis by (rule validate_dev_first)
next
  case (CutCommands n)
  assume "validate E (cut_config k c) = Some e"
  with CutCommands show ?thesis
    by (cases "Commands c") (auto simp: validate_def cong: option.case_cong split: option.splits dest: commands_take)
next
  case (CutHooks n)
  assume "validate E (cut_config k c) = Some e"
  with CutHooks show ?thesis
    by (cases "Hooks c") (auto simp: validate_def cong: option.case_cong split: option.splits dest: hooks_take)
next
  case (CutDeployments n)
  assume "validate E (cut_config k c) = Some e"
  with CutDeployments show ?thesis
    by (cases "Deployments c")
       (auto simp: validate_def cong: option.case_cong split: option.splits
         dest: deployments_take)
qed

lemma files_env_sel:
  "filepath_Abs (files_env fs) p = Inr (''/project/'' @ p)"
  "ReadYamlFromFile (files_env fs) q =
     (case map_of fs q of None \<Rightarrow> Inl ''no such file or directory'' | Some doc \<Rightarrow> Inr doc)"
  "merge_MergeInto (files_env fs) = MergeInto"
  "yaml_Marshal (files_env fs) doc =
     Inr (if doc ''unknownField'' = None then ''{}'' else ''unknownField: 1'')"
  "UnmarshalStrict_ComponentConfig (files_env fs) bytes =
     (if bytes = ''{}'' then None
      else Some ''field unknownField not found in type latest.ComponentConfig'')"
  "range_Images (files_env fs) images = []"
  "range_Images (visiting order) images = order"
  by (simp_all add: files_env_def visiting_def)

text \<open>
  C3, as the code has it. \<open>validate\<close> returns an error or nothing and writes nothing, but
  its result is not a function of the configuration alone. It depends on the value files
  of the deployments that use the component chart, and on the order in which the runtime
  visits the \<open>Images\<close> map. Two invocations that are given the same absolute form and the
  same document for each of these files, and that visit the images in the same order,
  return the same result. Whether \<open>validate\<close> accepts does not depend on the order of
  the visit. And \<open>validate\<close> stops at the first check that fails: an error found in the
  configuration cut short at any point is the result for the whole configuration.
\<close>

theorem validate_depends_on_config_files_and_visit_order:
  "(same_library E E' \<and> same_visit_order E E' c \<and>
    (\<forall>p \<in> component_chart_files c. same_file E E' p) \<longrightarrow>
      validate E c = validate E' c) \<and>
   (same_library E E' \<and> visits_every_image E c \<and> visits_every_image E' c \<and>
    (\<forall>p \<in> component_chart_files c. same_file E E' p) \<longrightarrow>
      (validate E c = None) = (validate E' c = None)) \<and>
   (validate E (cut_config k c) = Some e \<longrightarrow> validate E c = Some e)"
  using validate_agree [of E E' c] validate_accepts_agree [of E E' c] validate_cut [of E k c e]
  by blast

lemma bad_images_visit:
  "validate (visiting [''api'', ''web'']) bad_images_config = Some (ImageRequired ''api'')"
  "validate (visiting [''web'', ''api'']) bad_images_config = Some (ImageRequired ''web'')"
  by (simp_all add: validate_def bad_images_config_def empty_Config_def two_bad_images_def
      files_env_sel)

theorem validate_depends_on_config_files_and_visit_order_witness:
  "validate replicas_file_env values_file_config = validate other_file_env values_file_config \<and>
   validate other_file_env values_file_config = None \<and>
   validate (visiting [''web'', ''api'']) bad_images_config \<noteq> None \<and>
   validate (files_env []) failing_port_config = Some (PortSelectorNil 0)"
proof -
  have lib: "same_library replicas_file_env other_file_env"
    by (simp add: same_library_def replicas_file_env_def other_file_env_def files_env_def)
  have order: "same_visit_order replicas_file_env other_file_env values_file_config"
    by (simp add: same_visit_order_def values_file_config_def empty_Config_def)
  have files: "\<forall>p \<in> component_chart_files values_file_config.
      same_file replicas_file_env other_file_env p"
    by (simp add: component_chart_files_def values_file_config_def empty_Config_def
        deployments_of_def kubectl_deployment_def component_deployment_def plain_helm_def
        values_files_def same_file_def replicas_file_env_def other_file_env_def files_env_sel)
  have eq: "validate replicas_file_env values_file_config =
      validate other_file_env values_file_config"
    using validate_depends_on_config_files_and_visit_order [of replicas_file_env other_file_env values_file_config] lib order files
    by simp
  have one: "validate replicas_file_env values_file_config = None"
    by (simp add: validate_def values_file_config_def empty_Config_def validate_deployment_def
        kubectl_deployment_def component_deployment_def plain_helm_def chart_missing_def
        validate_component_values_def overwrite_values_def replicas_file_env_def files_env_sel
        MergeInto_def)
  let ?a = "visiting [''api'', ''web'']" and ?b = "visiting [''web'', ''api'']"
  have lib2: "same_library ?a ?b"
    by (simp add: same_library_def visiting_def)
  have every: "visits_every_image ?a bad_images_config \<and> visits_every_image ?b bad_images_config"
    by (auto simp: visits_every_image_def bad_images_config_def empty_Config_def
        two_bad_images_def files_env_sel)
  have files2: "\<forall>p \<in> component_chart_files bad_images_config. same_file ?a ?b p"
    by (simp add: component_chart_files_def bad_images_config_def empty_Config_def
        deployments_of_def)
  have "(validate ?a bad_images_config = None) = (validate ?b bad_images_config = None)"
    using validate_depends_on_config_files_and_visit_order [of ?a ?b bad_images_config] lib2 every files2 by blast
  then have two: "validate ?b bad_images_config \<noteq> None"
    by (simp add: bad_images_visit)
  have "validate (files_env []) (cut_config (CutPorts 1) failing_port_config) =
      Some (PortSelectorNil 0)"
    by (simp add: failing_port_config_def empty_Config_def validate_def validate_dev_def)
  then have three: "validate (files_env []) failing_port_config = Some (PortSelectorNil 0)"
    using validate_depends_on_config_files_and_visit_order [of "files_env []" _ failing_port_config "CutPorts 1" "PortSelectorNil 0"]
    by blast
  from eq one two three show ?thesis by simp
qed

text \<open>
  The result is not a function of the configuration alone. One configuration, whose
  deployment \<open>api\<close> uses the component chart with the value file \<open>values.yaml\<close>, passes
  while the file cannot be read and is rejected once the file holds a key the component
  schema does not have. And one configuration with two images that lack their image
  reference is rejected with the error for \<open>api\<close> when \<open>api\<close> is visited first and
  with the error for \<open>web\<close> when \<open>web\<close> is.
\<close>

theorem validate_result_changes_with_value_file:
  "validate (files_env []) values_file_config = None \<and>
   validate unknown_field_env values_file_config =
     Some (ComponentValuesIncorrect 1
       ''field unknownField not found in type latest.ComponentConfig'') \<and>
   validate (visiting [''api'', ''web'']) bad_images_config = Some (ImageRequired ''api'') \<and>
   validate (visiting [''web'', ''api'']) bad_images_config = Some (ImageRequired ''web'')"
  by (simp add: validate_def values_file_config_def empty_Config_def validate_deployment_def
        kubectl_deployment_def component_deployment_def plain_helm_def chart_missing_def
        validate_component_values_def overwrite_values_def unknown_field_env_def files_env_sel
        MergeInto_def bad_images_config_def two_bad_images_def)

subsection \<open>Deployment kinds\<close>

lemma validate_deployment_None_kind:
  "validate_deployment E i d = None \<Longrightarrow>
   deployment_Helm d \<noteq> None \<or> deployment_Kubectl d \<noteq> None"
  by (auto simp: validate_deployment_def split: if_splits)

lemma validate_deployments_None_member:
  "validate_deployments E i ds = None \<Longrightarrow> d \<in> set ds \<Longrightarrow>
   \<exists>j. validate_deployment E j d = None"
  by (induction ds arbitrary: i) (auto split: option.splits)

lemma validate_None_deployments:
  "validate E c = None \<Longrightarrow> validate_deployments E 0 (deployments_of c) = None"
  using validate_None_iff [of E c] by blast

lemma validate_sections:
  "validate E c =
     (case validate E (c\<lparr>Deployments := None\<rparr>) of
        Some e \<Rightarrow> Some e
      | None \<Rightarrow> validate_deployments E 0 (deployments_of c))"
  by (simp add: validate_def deployments_of_def split: option.splits)

lemma untyped_rejected:
  "deployment_Name d \<noteq> [] \<Longrightarrow> deployment_Helm d = None \<Longrightarrow> deployment_Kubectl d = None \<Longrightarrow>
   validate_deployment E i d = Some (DeploymentTypeRequired (deployment_Name d))"
  by (simp add: validate_deployment_def)

lemma unnamed_rejected:
  "deployment_Name d = [] \<Longrightarrow> validate_deployment E i d = Some (DeploymentNameRequired i)"
  by (simp add: validate_deployment_def)

lemma deployment_error_fatal:
  assumes "validate E (c\<lparr>Deployments := None\<rparr>) = None"
    and "Deployments c = Some (pre @ d # post)"
    and "validate_deployments E 0 pre = None"
    and "validate_deployment E (length pre) d = Some e"
  shows "validate E c = Some e"
proof -
  have "deployments_of c = pre @ d # post"
    using assms(2) by (simp add: deployments_of_def)
  then have "validate E c = validate_deployments E 0 (pre @ d # post)"
    using assms(1) validate_sections [of E c] by simp
  then show ?thesis
    using assms(3,4) by (simp add: validate_deployments_append)
qed

lemma load_values_files_error:
  "load_values_files E i files acc = Inl e \<Longrightarrow> \<exists>p msg. e = ValuesFilesAbsError i p msg"
  by (induction files arbitrary: acc) (auto split: sum.splits)

lemma component_values_not_kind:
  "validate_component_values E i helm \<noteq> Some (DeploymentTypeRequired n)"
  by (auto simp: validate_component_values_def overwrite_values_def
      split: sum.splits option.splits dest: load_values_files_error)

lemma kind_set_not_rejected_for_kind:
  "deployment_Helm d \<noteq> None \<or> deployment_Kubectl d \<noteq> None \<Longrightarrow>
   validate_deployment E i d \<noteq> Some (DeploymentTypeRequired n)"
  using component_values_not_kind [of E i _ n]
  by (auto simp: validate_deployment_def split: option.splits if_splits)

text \<open>
  C4, as the code has it. A configuration that \<open>validate\<close> accepts has no deployment with
  neither kind: each has helm or kubectl configured (or both). Where a deployment with
  neither kind is the first entry to fail (the sections before \<open>Deployments\<close> and the
  deployments before it pass), the error names the deployment by its name when it has
  one; the name is tested first, and an entry without a name gets the error for the
  missing name, which holds its index. A deployment with a kind set, or both, is never
  rejected with the error for the missing kind.
\<close>

theorem validate_rejects_deployment_without_kind:
  "(validate E c = None \<longrightarrow>
      (\<forall>d \<in> set (deployments_of c).
         deployment_Helm d \<noteq> None \<or> deployment_Kubectl d \<noteq> None)) \<and>
   (validate E (c\<lparr>Deployments := None\<rparr>) = None \<and> Deployments c = Some (pre @ d # post) \<and>
    validate_deployments E 0 pre = None \<and>
    deployment_Helm d = None \<and> deployment_Kubectl d = None \<longrightarrow>
      validate E c =
        Some (if deployment_Name d = [] then DeploymentNameRequired (length pre)
              else DeploymentTypeRequired (deployment_Name d))) \<and>
   (deployment_Helm d' \<noteq> None \<or> deployment_Kubectl d' \<noteq> None \<longrightarrow>
      validate_deployment E i d' \<noteq> Some (DeploymentTypeRequired n))"
proof (intro conjI impI ballI)
  fix x
  assume "validate E c = None" and "x \<in> set (deployments_of c)"
  then obtain j where "validate_deployment E j x = None"
    using validate_None_deployments validate_deployments_None_member by blast
  then show "deployment_Helm x \<noteq> None \<or> deployment_Kubectl x \<noteq> None"
    by (rule validate_deployment_None_kind)
next
  assume a: "validate E (c\<lparr>Deployments := None\<rparr>) = None \<and>
    Deployments c = Some (pre @ d # post) \<and>
    validate_deployments E 0 pre = None \<and>
    deployment_Helm d = None \<and> deployment_Kubectl d = None"
  then have "validate_deployment E (length pre) d =
      Some (if deployment_Name d = [] then DeploymentNameRequired (length pre)
            else DeploymentTypeRequired (deployment_Name d))"
    by (simp add: untyped_rejected unnamed_rejected)
  with a show "validate E c =
      Some (if deployment_Name d = [] then DeploymentNameRequired (length pre)
            else DeploymentTypeRequired (deployment_Name d))"
    using deployment_error_fatal by blast
next
  assume "deployment_Helm d' \<noteq> None \<or> deployment_Kubectl d' \<noteq> None"
  then show "validate_deployment E i d' \<noteq> Some (DeploymentTypeRequired n)"
    by (rule kind_set_not_rejected_for_kind)
qed

theorem validate_rejects_deployment_without_kind_witness:
  "validate (files_env []) (empty_Config\<lparr>Deployments := Some [kubectl_deployment]\<rparr>) = None \<and>
   deployment_Kubectl kubectl_deployment \<noteq> None \<and>
   validate (files_env [])
     (empty_Config\<lparr>Deployments := Some [kubectl_deployment, untyped_deployment]\<rparr>) =
     Some (DeploymentTypeRequired ''db'') \<and>
   validate (files_env [])
     (empty_Config\<lparr>Deployments :=
        Some [kubectl_deployment, untyped_deployment\<lparr>deployment_Name := []\<rparr>]\<rparr>) =
     Some (DeploymentNameRequired 1) \<and>
   validate_deployment (files_env []) 0 helm_and_kubectl_deployment \<noteq>
     Some (DeploymentTypeRequired ''app'')"
proof -
  let ?ok = "empty_Config\<lparr>Deployments := Some [kubectl_deployment]\<rparr>"
  let ?bad = "empty_Config\<lparr>Deployments := Some [kubectl_deployment, untyped_deployment]\<rparr>"
  let ?unnamed = "untyped_deployment\<lparr>deployment_Name := []\<rparr>"
  let ?worse = "empty_Config\<lparr>Deployments := Some [kubectl_deployment, ?unnamed]\<rparr>"
  have ok: "validate (files_env []) ?ok = None"
    by (simp add: validate_def empty_Config_def validate_deployment_def kubectl_deployment_def)
  have "kubectl_deployment \<in> set (deployments_of ?ok)"
    by (simp add: deployments_of_def)
  with ok validate_rejects_deployment_without_kind [of "files_env []" ?ok]
  have kind: "deployment_Helm kubectl_deployment \<noteq> None \<or>
      deployment_Kubectl kubectl_deployment \<noteq> None"
    by blast
  have pre: "validate (files_env []) (?bad\<lparr>Deployments := None\<rparr>) = None \<and>
      Deployments ?bad = Some ([kubectl_deployment] @ untyped_deployment # []) \<and>
      validate_deployments (files_env []) 0 [kubectl_deployment] = None \<and>
      deployment_Helm untyped_deployment = None \<and>
      deployment_Kubectl untyped_deployment = None"
    by (simp add: validate_def empty_Config_def validate_deployment_def kubectl_deployment_def
        untyped_deployment_def)
  have bad: "validate (files_env []) ?bad =
      Some (if deployment_Name untyped_deployment = []
            then DeploymentNameRequired (length [kubectl_deployment])
            else DeploymentTypeRequired (deployment_Name untyped_deployment))"
    using validate_rejects_deployment_without_kind
      [of "files_env []" ?bad "[kubectl_deployment]" untyped_deployment "[]"] pre
    by blast
  have pre2: "validate (files_env []) (?worse\<lparr>Deployments := None\<rparr>) = None \<and>
      Deployments ?worse = Some ([kubectl_deployment] @ ?unnamed # []) \<and>
      validate_deployments (files_env []) 0 [kubectl_deployment] = None \<and>
      deployment_Helm ?unnamed = None \<and> deployment_Kubectl ?unnamed = None"
    by (simp add: validate_def empty_Config_def validate_deployment_def kubectl_deployment_def
        untyped_deployment_def)
  have worse: "validate (files_env []) ?worse =
      Some (if deployment_Name ?unnamed = []
            then DeploymentNameRequired (length [kubectl_deployment])
            else DeploymentTypeRequired (deployment_Name ?unnamed))"
    using validate_rejects_deployment_without_kind
      [of "files_env []" ?worse "[kubectl_deployment]" ?unnamed "[]"] pre2
    by blast
  have "deployment_Helm helm_and_kubectl_deployment \<noteq> None"
    by (simp add: helm_and_kubectl_deployment_def)
  with validate_rejects_deployment_without_kind
      [of "files_env []" _ _ _ _ helm_and_kubectl_deployment 0 "''app''"]
  have both: "validate_deployment (files_env []) 0 helm_and_kubectl_deployment \<noteq>
      Some (DeploymentTypeRequired ''app'')"
    by blast
  from ok kind bad worse both show ?thesis
    by (simp add: kubectl_deployment_def untyped_deployment_def)
qed

text \<open>
  A deployment with both kinds set is accepted. And the error for a deployment with
  neither kind holds the deployment's name and no index: the deployment \<open>db\<close> gets the
  same error at index 1 and at index 0.
\<close>

theorem validate_accepts_helm_and_kubectl:
  "validate (files_env [])
     (empty_Config\<lparr>Deployments := Some [helm_and_kubectl_deployment]\<rparr>) = None \<and>
   validate (files_env [])
     (empty_Config\<lparr>Deployments := Some [kubectl_deployment, untyped_deployment]\<rparr>) =
     Some (DeploymentTypeRequired ''db'') \<and>
   validate (files_env []) (empty_Config\<lparr>Deployments := Some [untyped_deployment]\<rparr>) =
     Some (DeploymentTypeRequired ''db'')"
  by (simp add: validate_def empty_Config_def validate_deployment_def
      helm_and_kubectl_deployment_def kubectl_deployment_def untyped_deployment_def
      plain_helm_def nginx_chart_def chart_missing_def)

subsection \<open>Port-forward specs\<close>

text \<open>
  C5. A port-forward spec must name its target and declare at least one port mapping. The
  code tests \<open>port.PortMappings == nil\<close>, and reports \<open>portMappings is empty\<close>: a spec
  whose \<open>portMappings\<close> is the empty list (allocated, with no entry, as \<open>portMappings: []\<close>
  decodes) has no mapping and passes.
\<close>

theorem validate_accepts_empty_port_mappings:
  "validate E empty_port_mappings_config = None"
  by (simp add: validate_def empty_port_mappings_config_def empty_Config_def validate_dev_def)

subsection \<open>Chart values of the component chart\<close>

lemma foldl_MergeInto_key:
  "foldl MergeInto acc docs key =
     (case last_defined docs key of Some v \<Rightarrow> Some v | None \<Rightarrow> acc key)"
  by (induction docs arbitrary: acc) (simp_all add: MergeInto_def split: option.splits)

lemma load_values_files_fold:
  "merge_MergeInto E = MergeInto \<Longrightarrow> \<forall>p \<in> set files. \<exists>a. filepath_Abs E p = Inr a \<Longrightarrow>
   load_values_files E i files acc = Inr (foldl MergeInto acc (loaded_documents E files))"
proof (induction files arbitrary: acc)
  case Nil
  then show ?case by (simp add: loaded_documents_def List.map_filter_simps)
next
  case (Cons p files)
  then obtain a where a: "filepath_Abs E p = Inr a" by auto
  from Cons.prems have rest: "\<forall>q \<in> set files. \<exists>a. filepath_Abs E q = Inr a" by simp
  show ?case
    using a Cons.prems(1) Cons.IH [OF Cons.prems(1) rest]
    by (cases "ReadYamlFromFile E a") (simp_all add: loaded_documents_def List.map_filter_simps)
qed

lemma overwrite_values_reconciled:
  assumes "merge_MergeInto E = MergeInto"
    and "\<forall>p \<in> set (values_files helm). \<exists>a. filepath_Abs E p = Inr a"
  shows "overwrite_values E i helm =
           Inr (reconciled (loaded_documents E (values_files helm)) (helm_Values helm))"
proof -
  have l: "load_values_files E i (values_files helm) Map.empty =
      Inr (foldl MergeInto Map.empty (loaded_documents E (values_files helm)))"
    using assms by (rule load_values_files_fold)
  have k: "foldl MergeInto Map.empty docs = (\<lambda>key. last_defined docs key)" for docs
    by (rule ext) (simp add: foldl_MergeInto_key split: option.splits)
  show ?thesis
    using l assms(1)
    by (cases "helm_Values helm")
       (auto simp: overwrite_values_def values_files_def [symmetric] reconciled_def k
         MergeInto_def split: option.splits)
qed

lemma component_deployment_validation:
  assumes "deployment_Name d \<noteq> []" and "deployment_Helm d = Some helm"
    and "helm_ComponentChart helm = Some True" and "deployment_Kubectl d = None"
  shows "validate_deployment E i d = validate_component_values E i helm"
  using assms by (simp add: validate_deployment_def chart_missing_def)

lemma decode_failure:
  "overwrite_values E i helm = Inr v \<Longrightarrow> yaml_Marshal E v = Inr bytes \<Longrightarrow>
   UnmarshalStrict_ComponentConfig E bytes = Some err \<Longrightarrow>
   validate_component_values E i helm = Some (ComponentValuesIncorrect i err)"
  by (simp add: validate_component_values_def)

text \<open>
  C6. For a deployment that uses the component chart, with \<open>MergeInto\<close> as the spec
  describes it and value files whose paths have an absolute form: the override document
  is \<open>reconciled\<close>, that is, the documents of the readable value files merged in the order
  of the file list, a file that cannot be read being passed over, and the inline block
  merged last, so that a key of the inline block has the inline value. When the merged
  document does not decode into the component schema, validation of the deployment fails
  with the error that holds the deployment's index, and \<open>validate\<close> returns that error
  when nothing before the deployment fails.
\<close>

theorem chart_value_reconciliation:
  "(merge_MergeInto E = MergeInto \<and>
    (\<forall>p \<in> set (values_files helm). \<exists>a. filepath_Abs E p = Inr a) \<longrightarrow>
      overwrite_values E i helm =
        Inr (reconciled (loaded_documents E (values_files helm)) (helm_Values helm)) \<and>
      (\<forall>inline key v. helm_Values helm = Some inline \<and> inline key = Some v \<longrightarrow>
         reconciled (loaded_documents E (values_files helm)) (helm_Values helm) key = Some v)) \<and>
   (deployment_Name d \<noteq> [] \<and> deployment_Helm d = Some helm \<and>
    helm_ComponentChart helm = Some True \<and> deployment_Kubectl d = None \<and>
    overwrite_values E i helm = Inr doc \<and> yaml_Marshal E doc = Inr bytes \<and>
    UnmarshalStrict_ComponentConfig E bytes = Some err \<longrightarrow>
      validate_deployment E i d = Some (ComponentValuesIncorrect i err)) \<and>
   (validate E (c\<lparr>Deployments := None\<rparr>) = None \<and> Deployments c = Some (pre @ d # post) \<and>
    validate_deployments E 0 pre = None \<and>
    validate_deployment E (length pre) d = Some (ComponentValuesIncorrect (length pre) err) \<longrightarrow>
      validate E c = Some (ComponentValuesIncorrect (length pre) err))"
proof (intro conjI impI allI)
  assume "merge_MergeInto E = MergeInto \<and>
    (\<forall>p \<in> set (values_files helm). \<exists>a. filepath_Abs E p = Inr a)"
  then show "overwrite_values E i helm =
        Inr (reconciled (loaded_documents E (values_files helm)) (helm_Values helm))"
    by (simp add: overwrite_values_reconciled)
next
  fix inline key v
  assume "helm_Values helm = Some inline \<and> inline key = Some v"
  then show "reconciled (loaded_documents E (values_files helm)) (helm_Values helm) key = Some v"
    by (simp add: reconciled_def)
next
  assume a: "deployment_Name d \<noteq> [] \<and> deployment_Helm d = Some helm \<and>
    helm_ComponentChart helm = Some True \<and> deployment_Kubectl d = None \<and>
    overwrite_values E i helm = Inr doc \<and> yaml_Marshal E doc = Inr bytes \<and>
    UnmarshalStrict_ComponentConfig E bytes = Some err"
  then have "validate_deployment E i d = validate_component_values E i helm"
    by (simp add: component_deployment_validation)
  with a show "validate_deployment E i d = Some (ComponentValuesIncorrect i err)"
    by (simp add: decode_failure)
next
  assume "validate E (c\<lparr>Deployments := None\<rparr>) = None \<and>
    Deployments c = Some (pre @ d # post) \<and>
    validate_deployments E 0 pre = None \<and>
    validate_deployment E (length pre) d = Some (ComponentValuesIncorrect (length pre) err)"
  then show "validate E c = Some (ComponentValuesIncorrect (length pre) err)"
    by (simp add: deployment_error_fatal)
qed

theorem chart_value_reconciliation_witness:
  "overwrite_values replicas_file_env 0 inline_helm =
     Inr [''replicas'' \<mapsto> Scalar ''3'', ''image'' \<mapsto> Scalar ''x''] \<and>
   validate unknown_field_env values_file_config =
     Some (ComponentValuesIncorrect 1
       ''field unknownField not found in type latest.ComponentConfig'')"
proof -
  let ?d = "component_deployment (Some [''values.yaml'']) None"
  let ?h = "plain_helm\<lparr>helm_ComponentChart := Some True,
                helm_ValuesFiles := Some [''values.yaml''], helm_Values := None\<rparr>"
  let ?doc = "reconciled (loaded_documents unknown_field_env (values_files ?h)) (helm_Values ?h)"
  let ?err = "''field unknownField not found in type latest.ComponentConfig''"
  have abs1: "merge_MergeInto replicas_file_env = MergeInto \<and>
      (\<forall>p \<in> set (values_files inline_helm). \<exists>a. filepath_Abs replicas_file_env p = Inr a)"
    by (simp add: replicas_file_env_def files_env_sel)
  have rec1: "reconciled (loaded_documents replicas_file_env (values_files inline_helm))
       (helm_Values inline_helm) = [''replicas'' \<mapsto> Scalar ''3'', ''image'' \<mapsto> Scalar ''x'']"
    by (rule ext)
       (simp add: reconciled_def inline_helm_def plain_helm_def values_files_def
         loaded_documents_def List.map_filter_simps replicas_file_env_def files_env_sel)
  have first: "overwrite_values replicas_file_env 0 inline_helm =
     Inr [''replicas'' \<mapsto> Scalar ''3'', ''image'' \<mapsto> Scalar ''x'']"
    using chart_value_reconciliation [of replicas_file_env inline_helm 0] abs1 rec1 by simp
  have abs2: "merge_MergeInto unknown_field_env = MergeInto \<and>
      (\<forall>p \<in> set (values_files ?h). \<exists>a. filepath_Abs unknown_field_env p = Inr a)"
    by (simp add: unknown_field_env_def files_env_sel)
  have ov2: "overwrite_values unknown_field_env 1 ?h = Inr ?doc"
    using chart_value_reconciliation [of unknown_field_env ?h 1] abs2 by simp
  have key: "?doc ''unknownField'' = Some (Scalar ''1'')"
    by (simp add: reconciled_def plain_helm_def values_files_def
         loaded_documents_def List.map_filter_simps unknown_field_env_def files_env_sel)
  have dep: "validate_deployment unknown_field_env 1 ?d = Some (ComponentValuesIncorrect 1 ?err)"
    using chart_value_reconciliation
        [of unknown_field_env ?h 1 ?d ?doc "''unknownField: 1''" ?err] ov2 key
    by (simp add: component_deployment_def unknown_field_env_def files_env_sel)
  have pre: "validate unknown_field_env (values_file_config\<lparr>Deployments := None\<rparr>) = None \<and>
      Deployments values_file_config = Some ([kubectl_deployment] @ ?d # []) \<and>
      validate_deployments unknown_field_env 0 [kubectl_deployment] = None"
    by (simp add: values_file_config_def empty_Config_def validate_def validate_deployment_def
         kubectl_deployment_def)
  have second: "validate unknown_field_env values_file_config =
      Some (ComponentValuesIncorrect 1 ?err)"
    using chart_value_reconciliation
        [of unknown_field_env ?h 1 ?d ?doc "''unknownField: 1''" ?err
          values_file_config "[kubectl_deployment]" "[]"] pre dep
    by simp
  from first second show ?thesis by simp
qed

section \<open>Properties of the resolver\<close>

subsection \<open>Sample worlds\<close>

lemma project_world_sel:
  "generated_LoadConfig (project_world files generated) profile = generated"
  "generated_SaveConfig (project_world files generated) g = None"
  "os_Stat (project_world files generated) p =
     (if p \<in> set files then None else Some ''no such file or directory'')"
  "ioutil_ReadFile (project_world files generated) p =
     (if p \<in> set files then Inr ''version: v1beta3''
      else Inl (External ''no such file or directory''))"
  "yaml_Unmarshal (project_world files generated) content = Inr [''version'' \<mapsto> Scalar ''v1beta3'']"
  "ParseConfig (project_world files generated) g rawMap options = Inr (resolved_config, g)"
  "global_LoadedVars (project_world files generated) = [''USER'' \<mapsto> ''dev'']"
  "validate_env (project_world files generated) = files_env []"
  "latest_New (project_world files generated) = empty_Config"
  "os_Getwd_error (project_world files generated) = None"
  "homedir_Dir (project_world files generated) = Inr [''home'', ''dev'']"
  "os_Chdir (project_world files generated) p = None"
  by (simp_all add: project_world_def)

lemma named_world_sel:
  "generated_LoadConfig primary_world profile = Inr staging_generated"
  "generated_LoadConfig missing_world profile = Inr staging_generated"
  "generated_LoadConfig broken_generated_world profile =
     Inl (External ''yaml: malformed generated.yaml'')"
  "generated_SaveConfig primary_world g = None"
  "global_LoadedVars primary_world = [''USER'' \<mapsto> ''dev'']"
  "global_LoadedVars missing_world = [''USER'' \<mapsto> ''dev'']"
  "global_LoadedVars broken_generated_world = [''USER'' \<mapsto> ''dev'']"
  by (simp_all add: primary_world_def missing_world_def broken_generated_world_def
      project_world_sel)

lemma validate_resolved_config: "validate E resolved_config = None"
  by (simp add: validate_def resolved_config_def empty_Config_def validate_deployment_def
      kubectl_deployment_def)

lemma GetConfigFromPath_primary:
  "GetConfigFromPath primary_world [''project''] g (Relative []) options =
     (Inr (resolved_config, g), [EvStat, EvReadFile, EvUnmarshal, EvParseConfig, EvValidate])"
  by (simp add: GetConfigFromPath_def Let_def GetRawConfig_def primary_world_def project_world_sel
      DefaultConfigPath_def validate_resolved_config)

lemma GetConfigFromPath_missing:
  "GetConfigFromPath missing_world [''project''] g (Relative []) options =
     (Inl (CouldntFind (Relative [''devspace.yaml'']) ''no such file or directory''),
      [EvStat, EvStat])"
  by (simp add: GetConfigFromPath_def Let_def missing_world_def project_world_sel
      DefaultConfigPath_def DefaultConfigsPath_def)

lemma legacy_world_sel:
  "os_Getwd_error legacy_world = None"
  "homedir_Dir legacy_world = Inr [''home'', ''dev'']"
  "os_Chdir legacy_world p = None"
  "os_Stat legacy_world p =
     (if p = [''project'', ''devspace-configs.yaml''] then None
      else Some ''no such file or directory'')"
  by (simp_all add: legacy_world_def project_world_sel)

subsection \<open>Memoization\<close>







text \<open>
  \<open>InitConfig\<close> runs the same \<open>sync.Once\<close>: after it, a resolution call returns the
  configuration \<open>latest.New\<close> made and runs no step. A cache is cold when the
  \<open>sync.Once\<close> has not run.
\<close>

lemma InitConfig_runs_the_once:
  "\<not> getConfigOnce s \<Longrightarrow> InitConfig W s = (c, s') \<Longrightarrow>
   loadConfigOnce W' options allowProfile s' =
     ((Some (latest_New W), getConfigOnceErr s), options, s')"
  by (auto simp: InitConfig_def loadConfigOnce_def returned_def)













subsection \<open>Reset\<close>

text \<open>
  \<open>ResetConfig\<close> makes the cache cold and leaves \<open>config\<close> and \<open>getConfigOnceErr\<close> as
  they are.
\<close>

lemma ResetConfig_keeps_error:
  "\<not> getConfigOnce (ResetConfig s) \<and> getConfigOnceErr (ResetConfig s) = getConfigOnceErr s \<and>
   config (ResetConfig s) = config s"
  by (simp add: ResetConfig_def)

text \<open>
  C2. After \<open>ResetConfig\<close> the next call runs the pipeline again, and what it returns
  should be what that run produced. \<open>ResetConfig\<close> clears the \<open>sync.Once\<close> only, and a
  run that succeeds does not assign \<open>getConfigOnceErr\<close>: a first call in a directory
  without \<open>devspace.yaml\<close> fails, and after the reset a call that finds the file and
  resolves it, all steps run, returns the new configuration together with the error of
  the first call.
\<close>

theorem reset_keeps_previous_error:
  "fst (resolve (ViaGetConfig, primary_world, None)
     (ResetConfig (snd (snd (resolve (ViaGetConfig, missing_world, None) (cold [''project''])))))) =
     (Some resolved_config,
      Some (CouldntFind (Relative [''devspace.yaml'']) ''no such file or directory'')) \<and>
   trace (snd (snd (resolve (ViaGetConfig, primary_world, None)
     (ResetConfig (snd (snd (resolve (ViaGetConfig, missing_world, None) (cold [''project''])))))))) =
     [EvLoadConfig, EvStat, EvStat] @ full_pipeline"
proof -
  let ?err = "CouldntFind (Relative [''devspace.yaml'']) ''no such file or directory''"
  let ?s1 = "\<lparr>config = None, getConfigOnce = True, getConfigOnceErr = Some ?err,
        os_cwd = [''project''], trace = [EvLoadConfig, EvStat, EvStat]\<rparr>"
  have first: "resolve (ViaGetConfig, missing_world, None) (cold [''project'']) =
      ((None, Some ?err), None, ?s1)"
    by (simp add: resolve_def GetConfig_def loadConfigOnce_def Let_def cold_def
      GetConfigFromPath_missing returned_def log_events_def named_world_sel)
  have second: "resolve (ViaGetConfig, primary_world, None) (ResetConfig ?s1) =
      ((Some resolved_config, Some ?err), None,
       \<lparr>config = Some resolved_config, getConfigOnce = True, getConfigOnceErr = Some ?err,
        os_cwd = [''project''], trace = [EvLoadConfig, EvStat, EvStat] @ full_pipeline\<rparr>)"
    by (simp add: ResetConfig_def resolve_def GetConfig_def loadConfigOnce_def Let_def
      GetConfigFromPath_primary returned_def log_events_def full_pipeline_def named_world_sel)
  show ?thesis
    unfolding first by (simp add: second)
qed

subsection \<open>Writes to the caller's options\<close>

text \<open>
  C10, as the code has it. On a cold cache, when the generated state loads, the call
  writes to the options object the caller passed: \<open>LoadedVars\<close> becomes the package
  variable \<open>LoadedVars\<close>, whatever \<open>allowProfile\<close> and the profile are, and with profiles
  allowed, an empty \<open>Profile\<close> and an active profile in the generated state, \<open>Profile\<close>
  becomes that profile; \<open>KubeContext\<close> and \<open>Vars\<close> stay. When the generated state does
  not load, the call returns before either write and the object is as the caller passed
  it.
\<close>

theorem loadConfigOnce_writes_caller_options:
  "(\<not> getConfigOnce s \<and> generated_LoadConfig W (Profile given) = Inr g \<and>
    loadConfigOnce W (Some given) allowProfile s = (r, options', s') \<longrightarrow>
      (\<exists>written. options' = Some written \<and>
         LoadedVars written = global_LoadedVars W \<and>
         (allowProfile \<and> Profile given = [] \<and> ActiveProfile g \<noteq> [] \<longrightarrow>
            Profile written = ActiveProfile g) \<and>
         KubeContext written = KubeContext given \<and> Vars written = Vars given)) \<and>
   (\<not> getConfigOnce s \<and> generated_LoadConfig W (Profile given) = Inl err \<and>
    loadConfigOnce W (Some given) allowProfile s = (r, options', s') \<longrightarrow>
      options' = Some given)"
  by (auto simp: loadConfigOnce_def Let_def returned_def select_profile_def
      split: sum.splits prod.splits option.splits if_splits)

theorem loadConfigOnce_writes_caller_options_witness:
  "fst (snd (loadConfigOnce primary_world (Some caller_options) True (cold [''project'']))) =
     Some (caller_options\<lparr>Profile := ''staging'', LoadedVars := [''USER'' \<mapsto> ''dev'']\<rparr>) \<and>
   fst (snd (loadConfigOnce broken_generated_world (Some caller_options) False (cold [''project''])))
     = Some caller_options"
proof -
  obtain r options' s' where run:
    "loadConfigOnce primary_world (Some caller_options) True (cold [''project'']) = (r, options', s')"
    by (cases "loadConfigOnce primary_world (Some caller_options) True (cold [''project''])")
  have pre: "\<not> getConfigOnce (cold [''project'']) \<and>
      generated_LoadConfig primary_world (Profile caller_options) = Inr staging_generated"
    by (simp add: cold_def named_world_sel)
  from loadConfigOnce_writes_caller_options [of "cold [''project'']" primary_world caller_options staging_generated True
      r options' s'] pre run
  obtain written where w: "options' = Some written"
      "LoadedVars written = global_LoadedVars primary_world"
      "True \<and> Profile caller_options = [] \<and> ActiveProfile staging_generated \<noteq> [] \<longrightarrow>
         Profile written = ActiveProfile staging_generated"
      "KubeContext written = KubeContext caller_options" "Vars written = Vars caller_options"
    by blast
  then have "written = caller_options\<lparr>Profile := ''staging'', LoadedVars := [''USER'' \<mapsto> ''dev'']\<rparr>"
    by (simp add: caller_options_def staging_generated_def named_world_sel)
  with w(1) run have one:
    "fst (snd (loadConfigOnce primary_world (Some caller_options) True (cold [''project'']))) =
     Some (caller_options\<lparr>Profile := ''staging'', LoadedVars := [''USER'' \<mapsto> ''dev'']\<rparr>)"
    by simp
  obtain r2 options2 s2 where run2:
    "loadConfigOnce broken_generated_world (Some caller_options) False (cold [''project'']) =
       (r2, options2, s2)"
    by (cases "loadConfigOnce broken_generated_world (Some caller_options) False (cold [''project''])")
  have pre2: "\<not> getConfigOnce (cold [''project'']) \<and>
      generated_LoadConfig broken_generated_world (Profile caller_options) =
        Inl (External ''yaml: malformed generated.yaml'')"
    by (simp add: cold_def named_world_sel)
  from loadConfigOnce_writes_caller_options [of "cold [''project'']" broken_generated_world caller_options _ False
      r2 options2 s2 "External ''yaml: malformed generated.yaml''"] pre2 run2
  have "options2 = Some caller_options" by blast
  with run2 one show ?thesis by simp
qed

text \<open>
  The write to \<open>LoadedVars\<close> does not happen on every first call: with a generated state
  that does not load, the caller's \<open>LoadedVars\<close> still binds \<open>REGION\<close>, which the package
  variable does not.
\<close>

theorem loadConfigOnce_leaves_options_when_generated_fails:
  "fst (snd (loadConfigOnce broken_generated_world (Some caller_options) True (cold [''project''])))
     = Some caller_options \<and>
   LoadedVars caller_options ''REGION'' = Some ''eu'' \<and>
   global_LoadedVars broken_generated_world ''REGION'' = None"
  by (simp add: loadConfigOnce_def Let_def returned_def cold_def named_world_sel
      caller_options_def)

section \<open>Properties of the root locator\<close>

lemma path_len_append:
  "[] \<notin> set (p @ [x]) \<Longrightarrow> path_len p < path_len (p @ [x])"
  by (cases p) (auto simp: path_len_def)

lemma path_len_pos: "path_len p \<noteq> 0"
  by (cases p) (simp_all add: path_len_def)

lemma loop_walk:
  assumes "[] \<notin> set (dir @ below)"
    and "\<forall>k. 0 < k \<and> k \<le> length below \<longrightarrow> \<not> configExistsInPath W s (dir @ take k below)"
    and "dir \<noteq> home" and "configExistsInPath W s dir" and "os_Chdir W dir = None"
    and "path_len (dir @ below) \<noteq> lastLength"
  shows "SetDevSpaceRoot_loop W orig home (dir @ below) lastLength s =
           ((True, None),
            log_events (if orig \<noteq> dir then [EvInfo dir] else []) (s\<lparr>os_cwd := dir\<rparr>))"
  using assms
proof (induction below arbitrary: lastLength rule: rev_induct)
  case Nil
  then show ?case
    by (subst SetDevSpaceRoot_loop.simps) simp
next
  case (snoc x below)
  have nf: "\<not> configExistsInPath W s (dir @ below @ [x])"
    using snoc.prems(2) by (auto dest: spec [of _ "Suc (length below)"])
  have len: "path_len (dir @ below) \<noteq> path_len (dir @ below @ [x])"
    using path_len_append [of "dir @ below" x] snoc.prems(1) by simp
  have prev: "\<forall>k. 0 < k \<and> k \<le> length below \<longrightarrow> \<not> configExistsInPath W s (dir @ take k below)"
    using snoc.prems(2) by (auto dest: spec)
  have wf: "[] \<notin> set (dir @ below)"
    using snoc.prems(1) by simp
  have step: "SetDevSpaceRoot_loop W orig home (dir @ below @ [x]) lastLength s =
      SetDevSpaceRoot_loop W orig home (dir @ below) (path_len (dir @ below @ [x])) s"
    using snoc.prems(6) nf
    by (subst SetDevSpaceRoot_loop.simps) (simp add: filepath_Dir_def butlast_append)
  show ?case
    using step snoc.IH [OF wf prev snoc.prems(3,4,5) len] by simp
qed

lemma legacy_only_exists:
  "config s = None \<Longrightarrow> os_Stat W (dir @ [DefaultConfigsPath]) = None \<Longrightarrow> configExistsInPath W s dir"
  by (simp add: configExistsInPath_def)

lemma no_marker_not_exists:
  "config s = None \<Longrightarrow> os_Stat W (dir @ [DefaultConfigPath]) \<noteq> None \<Longrightarrow>
   os_Stat W (dir @ [DefaultConfigsPath]) \<noteq> None \<Longrightarrow> \<not> configExistsInPath W s dir"
  by (simp add: configExistsInPath_def)

lemma legacy_only_load:
  "os_Stat W (dir @ [DefaultConfigPath]) \<noteq> None \<Longrightarrow> os_Stat W (dir @ [DefaultConfigsPath]) = None \<Longrightarrow>
   GetConfigFromPath W dir g (Relative []) options =
     (Inl LegacyConfigsNotSupported, [EvStat, EvStat])"
  by (auto simp: GetConfigFromPath_def Let_def split: option.splits)

text \<open>
  C7, as the code has it. The walk starts in \<open>dir @ below\<close>; the directories below
  \<open>dir\<close> hold neither marker, and \<open>dir\<close>, which is not the home directory, holds the
  legacy marker and not the primary file. Then \<open>SetDevSpaceRoot\<close> reports the root as
  found, with no error: it changes the working directory to \<open>dir\<close> and prints its note
  when it moved. The error for the legacy format comes afterwards, from
  \<open>GetConfigFromPath\<close> with the base path \<open>"."\<close> in that working directory.
\<close>

theorem legacy_marker_found_then_rejected:
  "os_Getwd_error W = None \<and> homedir_Dir W = Inr home \<and> os_cwd s = dir @ below \<and>
   [] \<notin> set (dir @ below) \<and> config s = None \<and> dir \<noteq> home \<and>
   os_Stat W (dir @ [DefaultConfigPath]) \<noteq> None \<and>
   os_Stat W (dir @ [DefaultConfigsPath]) = None \<and>
   (\<forall>k. 0 < k \<and> k \<le> length below \<longrightarrow>
      os_Stat W (dir @ take k below @ [DefaultConfigPath]) \<noteq> None \<and>
      os_Stat W (dir @ take k below @ [DefaultConfigsPath]) \<noteq> None) \<and>
   os_Chdir W dir = None \<longrightarrow>
     SetDevSpaceRoot W s =
       ((True, None), log_events (if below \<noteq> [] then [EvInfo dir] else []) (s\<lparr>os_cwd := dir\<rparr>)) \<and>
     fst (GetConfigFromPath W dir g (Relative []) options) = Inl LegacyConfigsNotSupported"
proof (intro impI)
  assume a: "os_Getwd_error W = None \<and> homedir_Dir W = Inr home \<and> os_cwd s = dir @ below \<and>
   [] \<notin> set (dir @ below) \<and> config s = None \<and> dir \<noteq> home \<and>
   os_Stat W (dir @ [DefaultConfigPath]) \<noteq> None \<and>
   os_Stat W (dir @ [DefaultConfigsPath]) = None \<and>
   (\<forall>k. 0 < k \<and> k \<le> length below \<longrightarrow>
      os_Stat W (dir @ take k below @ [DefaultConfigPath]) \<noteq> None \<and>
      os_Stat W (dir @ take k below @ [DefaultConfigsPath]) \<noteq> None) \<and>
   os_Chdir W dir = None"
  then have below: "\<forall>k. 0 < k \<and> k \<le> length below \<longrightarrow>
      \<not> configExistsInPath W s (dir @ take k below)"
    using no_marker_not_exists [of s W] by simp
  have found: "configExistsInPath W s dir"
    using a by (simp add: legacy_only_exists)
  have len: "path_len (dir @ below) \<noteq> 0"
    by (rule path_len_pos)
  have "SetDevSpaceRoot_loop W (dir @ below) home (dir @ below) 0 s =
      ((True, None),
       log_events (if dir @ below \<noteq> dir then [EvInfo dir] else []) (s\<lparr>os_cwd := dir\<rparr>))"
    using a below found len by (intro loop_walk) simp_all
  then have root: "SetDevSpaceRoot W s =
       ((True, None), log_events (if below \<noteq> [] then [EvInfo dir] else []) (s\<lparr>os_cwd := dir\<rparr>))"
    using a by (simp add: SetDevSpaceRoot_def)
  have "fst (GetConfigFromPath W dir g (Relative []) options) = Inl LegacyConfigsNotSupported"
    using a by (simp add: legacy_only_load)
  with root show "SetDevSpaceRoot W s =
       ((True, None), log_events (if below \<noteq> [] then [EvInfo dir] else []) (s\<lparr>os_cwd := dir\<rparr>)) \<and>
     fst (GetConfigFromPath W dir g (Relative []) options) = Inl LegacyConfigsNotSupported"
    by simp
qed

theorem legacy_marker_found_then_rejected_witness:
  "SetDevSpaceRoot legacy_world (cold [''project'', ''src'']) =
     ((True, None), (cold [''project''])\<lparr>trace := [EvInfo [''project'']]\<rparr>) \<and>
   fst (GetConfigFromPath legacy_world [''project''] staging_generated (Relative []) None) =
     Inl LegacyConfigsNotSupported"
proof -
  have pre: "os_Getwd_error legacy_world = None \<and> homedir_Dir legacy_world = Inr [''home'', ''dev''] \<and>
   os_cwd (cold [''project'', ''src'']) = [''project''] @ [''src''] \<and>
   [] \<notin> set ([''project''] @ [''src'']) \<and> config (cold [''project'', ''src'']) = None \<and>
   [''project''] \<noteq> [''home'', ''dev''] \<and>
   os_Stat legacy_world ([''project''] @ [DefaultConfigPath]) \<noteq> None \<and>
   os_Stat legacy_world ([''project''] @ [DefaultConfigsPath]) = None \<and>
   (\<forall>k. 0 < k \<and> k \<le> length [''src''] \<longrightarrow>
      os_Stat legacy_world ([''project''] @ take k [''src''] @ [DefaultConfigPath]) \<noteq> None \<and>
      os_Stat legacy_world ([''project''] @ take k [''src''] @ [DefaultConfigsPath]) \<noteq> None) \<and>
   os_Chdir legacy_world [''project''] = None"
    by (simp add: legacy_world_sel cold_def DefaultConfigPath_def DefaultConfigsPath_def)
  from legacy_marker_found_then_rejected [of legacy_world "[''home'', ''dev'']" "cold [''project'', ''src'']" "[''project'']"
      "[''src'']" staging_generated None] pre
  show ?thesis
    by (simp add: cold_def log_events_def)
qed

text \<open>
  \<open>SetDevSpaceRoot\<close> itself raises nothing for the legacy marker: from \<open>/project/src\<close>,
  with \<open>devspace-configs.yaml\<close> alone in \<open>/project\<close>, it returns \<open>(true, nil)\<close> and moves
  to \<open>/project\<close>.
\<close>

theorem SetDevSpaceRoot_finds_legacy_marker:
  "SetDevSpaceRoot legacy_world (cold [''project'', ''src'']) =
     ((True, None), (cold [''project''])\<lparr>trace := [EvInfo [''project'']]\<rparr>)"
  by (simp add: SetDevSpaceRoot_def legacy_world_sel cold_def
      path_len_def configExistsInPath_def DefaultConfigPath_def DefaultConfigsPath_def
      filepath_Dir_def log_events_def)

section \<open>Properties of the helm deployment client\<close>

text \<open>
  C8, as the code has it. \<open>New\<close> writes to the deployment it is given, in place: when the
  deployment uses the component chart, its \<open>Helm.Chart\<close> becomes \<open>DevSpaceChartConfig\<close>,
  and nothing else changes (no other deployment, no other field); when it does not,
  the heap, and with it the configuration read through it, is unchanged.
\<close>

theorem New_exchanges_chart_in_place:
  "New h c kubeClient (Some p) = Inr (client, h') \<longrightarrow>
     (\<exists>helm. deployment_Helm (h p) = Some helm \<and>
        (helm_ComponentChart helm = Some True \<longrightarrow>
           h' = h(p := (h p)\<lparr>deployment_Helm := Some (helm\<lparr>helm_Chart := Some DevSpaceChartConfig\<rparr>)\<rparr>)) \<and>
        (helm_ComponentChart helm \<noteq> Some True \<longrightarrow>
           h' = h \<and> read_config h' c = read_config h c)) \<and>
     (\<forall>q. q \<noteq> p \<longrightarrow> h' q = h q) \<and>
     deployment_Name (h' p) = deployment_Name (h p) \<and>
     deployment_Kubectl (h' p) = deployment_Kubectl (h p) \<and>
     ref_Sections (deploy_config client) = ref_Sections c"
  by (auto simp: New_def Let_def split: option.splits if_splits)

theorem New_exchanges_chart_in_place_witness:
  "map_sum id snd (New chart_heap component_ref (Some \<lparr>kube_Namespace = ''default''\<rparr>) (Some 0)) =
     Inr chart_heap \<and>
   map_sum id snd (New component_heap component_ref (Some \<lparr>kube_Namespace = ''default''\<rparr>) (Some 0)) =
     Inr (component_heap(0 := (component_deployment None None)\<lparr>deployment_Helm :=
             Some (plain_helm\<lparr>helm_Chart := Some DevSpaceChartConfig,
                     helm_ComponentChart := Some True\<rparr>)\<rparr>))"
proof -
  let ?kube = "\<lparr>kube_Namespace = ''default''\<rparr>"
  obtain client h' where run: "New chart_heap component_ref (Some ?kube) (Some 0) = Inr (client, h')"
    by (simp add: New_def Let_def chart_heap_def helm_and_kubectl_deployment_def)
  have "helm_ComponentChart (plain_helm\<lparr>helm_Chart := Some nginx_chart\<rparr>) \<noteq> Some True"
    by (simp add: plain_helm_def)
  with New_exchanges_chart_in_place [of chart_heap component_ref "Some ?kube" 0 client h'] run
  have one: "h' = chart_heap"
    by (auto simp: chart_heap_def helm_and_kubectl_deployment_def)
  obtain client2 h2 where run2:
    "New component_heap component_ref (Some ?kube) (Some 0) = Inr (client2, h2)"
    by (simp add: New_def Let_def component_heap_def component_deployment_def)
  from New_exchanges_chart_in_place [of component_heap component_ref "Some ?kube" 0 client2 h2] run2
  have "h2 = component_heap(0 := (component_deployment None None)\<lparr>deployment_Helm :=
             Some (plain_helm\<lparr>helm_Chart := Some DevSpaceChartConfig,
                     helm_ComponentChart := Some True\<rparr>)\<rparr>)"
    by (auto simp: component_heap_def component_deployment_def plain_helm_def)
  with one run run2 show ?thesis by simp
qed

text \<open>
  The configuration does change under \<open>New\<close>: the deployment at address 0, which the
  configuration holds, has no chart before the call and the component chart after it.
\<close>

theorem New_mutates_resolved_config:
  "(case New component_heap component_ref (Some \<lparr>kube_Namespace = ''default''\<rparr>) (Some 0) of
      Inl e \<Rightarrow> None
    | Inr (client, h') \<Rightarrow> Deployments (read_config h' component_ref)) =
     Some [(component_deployment None None)\<lparr>deployment_Helm :=
             Some (plain_helm\<lparr>helm_Chart := Some DevSpaceChartConfig,
                     helm_ComponentChart := Some True\<rparr>)\<rparr>] \<and>
   Deployments (read_config component_heap component_ref) =
     Some [(component_deployment None None)\<lparr>deployment_Helm :=
             Some (plain_helm\<lparr>helm_Chart := None, helm_ComponentChart := Some True\<rparr>)\<rparr>]"
  by (simp add: New_def Let_def component_heap_def component_ref_def read_config_def
      component_deployment_def plain_helm_def)

end
